theory Spec2Isabelle
  imports Main "HOL-Library.Sublist"
begin

section \<open>Python strings and values\<close>

text \<open>
  A Python \<open>str\<close> is a sequence of Unicode code points, so a string is a list of
  code points; \<open>asc\<close> embeds the ASCII literals of the source.
\<close>

type_synonym pychar = nat
type_synonym pystr = "pychar list"

definition asc :: "string \<Rightarrow> pystr" where
  "asc s = map of_char s"

text \<open>The characters \<open>str.strip()\<close> and \<open>str.split()\<close> treat as whitespace.\<close>

definition is_space :: "pychar \<Rightarrow> bool" where
  "is_space c \<longleftrightarrow>
     (9 \<le> c \<and> c \<le> 13) \<or> (28 \<le> c \<and> c \<le> 32) \<or> c = 133 \<or> c = 160 \<or> c = 5760 \<or>
     (8192 \<le> c \<and> c \<le> 8202) \<or> c = 8232 \<or> c = 8233 \<or> c = 8239 \<or> c = 8287 \<or> c = 12288"

text \<open>\<open>s.strip()\<close>: leading and trailing whitespace removed.\<close>

definition py_strip :: "pystr \<Rightarrow> pystr" where
  "py_strip s = rev (dropWhile is_space (rev (dropWhile is_space s)))"

text \<open>
  \<open>s.split()\<close>: the maximal runs of non-whitespace characters, in order; \<open>cur\<close> is
  the run being read.
\<close>

fun split_from :: "pystr \<Rightarrow> pystr \<Rightarrow> pystr list" where
  "split_from cur [] = (if cur = [] then [] else [cur])"
| "split_from cur (c # cs) =
     (if is_space c then (if cur = [] then split_from [] cs else cur # split_from [] cs)
      else split_from (cur @ [c]) cs)"

definition py_split :: "pystr \<Rightarrow> pystr list" where
  "py_split s = split_from [] s"

text \<open>\<open>s.find(m)\<close>: the lowest index at which \<open>m\<close> occurs in \<open>s\<close>, if any.\<close>

fun py_find :: "pystr \<Rightarrow> pystr \<Rightarrow> nat option" where
  "py_find m [] = (if m = [] then Some 0 else None)"
| "py_find m (c # cs) = (if prefix m (c # cs) then Some 0 else map_option Suc (py_find m cs))"

text \<open>\<open>m in s\<close>.\<close>

definition py_in :: "pystr \<Rightarrow> pystr \<Rightarrow> bool" where
  "py_in m s \<longleftrightarrow> py_find m s \<noteq> None"

text \<open>
  A computation that may raise: \<open>Inl\<close> carries the message \<open>str(e)\<close> of the
  exception, \<open>Inr\<close> the value returned.
\<close>

type_synonym 'a result = "pystr + 'a"

definition and_then :: "'a result \<Rightarrow> ('a \<Rightarrow> 'b result) \<Rightarrow> 'b result" where
  "and_then r f = (case r of Inl e \<Rightarrow> Inl e | Inr x \<Rightarrow> f x)"

text \<open>\<open>s.index(m)\<close>: as \<open>find\<close>, but raises \<open>ValueError\<close> when \<open>m\<close> does not occur.\<close>

definition py_index :: "pystr \<Rightarrow> pystr \<Rightarrow> nat result" where
  "py_index m s = (case py_find m s of None \<Rightarrow> Inl (asc ''substring not found'') | Some i \<Rightarrow> Inr i)"

text \<open>\<open>s[a:b]\<close> for indices that are not negative.\<close>

definition slice :: "pystr \<Rightarrow> nat \<Rightarrow> nat \<Rightarrow> pystr" where
  "slice s a b = take (b - a) (drop a s)"

section \<open>Parsing the model's answer\<close>

record analysis =
  summary :: pystr
  grade :: pystr
  grade_text :: pystr

definition SUMMARY :: pystr where
  "SUMMARY = asc ''SUMMARY:''"

definition GRADE :: pystr where
  "GRADE = asc ''GRADE:''"

definition valid_grades :: "pystr list" where
  "valid_grades = map asc
     [''A+'', ''A'', ''A-'', ''B+'', ''B'', ''B-'', ''C+'', ''C'', ''C-'', ''D+'', ''D'', ''D-'', ''F'']"

text \<open>The order in which the fallback loop tries the tokens.\<close>

definition scan_order :: "pystr list" where
  "scan_order = map asc
     [''A+'', ''A-'', ''B+'', ''B-'', ''C+'', ''C-'', ''D+'', ''D-'', ''A'', ''B'', ''C'', ''D'', ''F'']"

text \<open>The tokens of \<open>scan_order\<close> that carry a modifier, and the bare letters that follow them.\<close>

definition modifier_tokens :: "pystr list" where
  "modifier_tokens = take 8 scan_order"

definition bare_tokens :: "pystr list" where
  "bare_tokens = take 4 (drop 8 scan_order)"

text \<open>
  The two slices taken when both markers occur in \<open>raw\<close>: the summary and the grade block.
\<close>

definition split_sections :: "pystr \<Rightarrow> (pystr \<times> pystr) result" where
  "split_sections raw =
     and_then (py_index SUMMARY raw) (\<lambda>i.
     and_then (py_index GRADE raw) (\<lambda>grade_start.
       let summary_start = i + length SUMMARY
       in Inr (py_strip (slice raw summary_start grade_start),
               py_strip (drop (grade_start + length GRADE) raw))))"

text \<open>\<open>grade_block.split()[0] if grade_block else ""\<close>.\<close>

definition first_token :: "pystr \<Rightarrow> pystr result" where
  "first_token grade_block =
     (if grade_block \<noteq> [] then
        (case py_split grade_block of
           [] \<Rightarrow> Inl (asc ''list index out of range'')
         | t # _ \<Rightarrow> Inr t)
      else Inr [])"

text \<open>
  The grade letter and the grade text read from a grade block: the first token when it is
  a valid grade, else the first token of \<open>scan_order\<close> that occurs in the block; both stay
  empty when none does.
\<close>

definition grade_of_block :: "pystr \<Rightarrow> (pystr \<times> pystr) result" where
  "grade_of_block grade_block =
     and_then (first_token grade_block) (\<lambda>t.
       if t \<in> set valid_grades then Inr (t, grade_block)
       else (case find (\<lambda>g. py_in g grade_block) scan_order of
               None \<Rightarrow> Inr ([], [])
             | Some g \<Rightarrow> Inr (g, grade_block)))"

text \<open>From the text of the model's answer to the three fields of the result.\<close>

definition parse_response :: "pystr \<Rightarrow> analysis result" where
  "parse_response text =
     (let raw = py_strip text in
      if py_in SUMMARY raw \<and> py_in GRADE raw then
        and_then (split_sections raw) (\<lambda>(s, grade_block).
        and_then (grade_of_block grade_block) (\<lambda>(g, gt).
          Inr \<lparr>summary = s, grade = g, grade_text = gt\<rparr>))
      else Inr \<lparr>summary = raw, grade = [], grade_text = asc ''Grade not detected.''\<rparr>)"

section \<open>Values, dictionaries and replies\<close>

text \<open>
  The values the handlers move around: JSON scalars and table cells. A float, a list or a
  nested object is \<open>POther\<close>, carried by the two things the program uses of it, its truth
  value and its \<open>str()\<close> text.
\<close>

datatype pyval = PNone | PBool bool | PInt int | PStr pystr | POther bool pystr

text \<open>\<open>bool(v)\<close>, as \<open>not v\<close> reads it.\<close>

fun truthy :: "pyval \<Rightarrow> bool" where
  "truthy PNone = False"
| "truthy (PBool b) = b"
| "truthy (PInt i) = (i \<noteq> 0)"
| "truthy (PStr s) = (s \<noteq> [])"
| "truthy (POther t _) = t"

function digits_of :: "nat \<Rightarrow> pystr" where
  "digits_of n = (if n < 10 then [48 + n] else digits_of (n div 10) @ [48 + n mod 10])"
  by pat_completeness auto
termination
  by (relation "measure id") auto

declare digits_of.simps [simp del]

text \<open>\<open>str(v)\<close>, which is what an f-string placeholder \<open>{v}\<close> inserts.\<close>

fun py_str :: "pyval \<Rightarrow> pystr" where
  "py_str PNone = asc ''None''"
| "py_str (PBool b) = (if b then asc ''True'' else asc ''False'')"
| "py_str (PInt i) = (if i < 0 then 45 # digits_of (nat (- i)) else digits_of (nat i))"
| "py_str (PStr s) = s"
| "py_str (POther _ s) = s"

text \<open>A dictionary with string keys, in insertion order; \<open>d.get(k)\<close> and \<open>d.get(k, v)\<close>.\<close>

type_synonym pydict = "(pystr \<times> pyval) list"

definition dget_default :: "pydict \<Rightarrow> pystr \<Rightarrow> pyval \<Rightarrow> pyval" where
  "dget_default d k v = (case map_of d k of None \<Rightarrow> v | Some x \<Rightarrow> x)"

definition dget :: "pydict \<Rightarrow> pystr \<Rightarrow> pyval" where
  "dget d k = dget_default d k PNone"

text \<open>
  What a handler answers: \<open>jsonify(x)\<close> with status 200, or \<open>jsonify({"error": msg})\<close>
  with an error status. \<open>Unhandled\<close> is an exception that leaves the handler.
\<close>

datatype 'a reply = Ok 'a | Error nat pystr | Unhandled pystr

fun status :: "'a reply \<Rightarrow> nat" where
  "status (Ok _) = 200"
| "status (Error n _) = n"
| "status (Unhandled _) = 500"

section \<open>The prompt of /api/analyze\<close>

text \<open>One f-string of \<open>stat_lines\<close>: \<open>f"Label: {data.get('key')}"\<close>.\<close>

definition stat_line :: "string \<Rightarrow> pydict \<Rightarrow> string \<Rightarrow> pystr" where
  "stat_line label data key = asc label @ asc '': '' @ py_str (dget data (asc key))"

definition batter_stat_lines :: "pydict \<Rightarrow> pystr list" where
  "batter_stat_lines data =
     [stat_line ''Games'' data ''games'',
      stat_line ''At-Bats'' data ''at_bats'',
      stat_line ''Hits'' data ''hits'',
      stat_line ''Batting Average (AVG)'' data ''avg'',
      stat_line ''On-Base Percentage (OBP)'' data ''obp'',
      stat_line ''Slugging Percentage (SLG)'' data ''slg'',
      stat_line ''OPS'' data ''ops'',
      stat_line ''Home Runs (HR)'' data ''home_runs'',
      stat_line ''RBI'' data ''rbi'',
      stat_line ''Stolen Bases (SB)'' data ''stolen_bases'',
      stat_line ''Walks (BB)'' data ''walks'',
      stat_line ''Strikeouts (SO)'' data ''strikeouts'',
      stat_line ''Doubles (2B)'' data ''doubles'',
      stat_line ''Triples (3B)'' data ''triples'',
      stat_line ''WAR'' data ''war'',
      stat_line ''wRC+'' data ''wrc_plus'']"

definition pitcher_stat_lines :: "pydict \<Rightarrow> pystr list" where
  "pitcher_stat_lines data =
     [stat_line ''Games'' data ''games'',
      stat_line ''Games Started (GS)'' data ''games_started'',
      stat_line ''Wins'' data ''wins'',
      stat_line ''Losses'' data ''losses'',
      stat_line ''Saves'' data ''saves'',
      stat_line ''Innings Pitched (IP)'' data ''innings_pitched'',
      stat_line ''ERA'' data ''era'',
      stat_line ''WHIP'' data ''whip'',
      stat_line ''Strikeouts (K)'' data ''strikeouts'',
      stat_line ''Walks (BB)'' data ''walks'',
      stat_line ''K/9'' data ''k9'',
      stat_line ''BB/9'' data ''bb9'',
      stat_line ''FIP'' data ''fip'',
      stat_line ''WAR'' data ''war'']"

definition batter_benchmarks :: pystr where
  "batter_benchmarks = asc
     (''Use these grade benchmarks for a position player:\<newline>'' @
      ''  A+ = MVP-caliber (WAR 7+, OPS 1.000+)\<newline>'' @
      ''  A  = All-Star level (WAR 5-7, OPS .900-.999)\<newline>'' @
      ''  B  = Above average starter (WAR 3-5, OPS .800-.899)\<newline>'' @
      ''  C  = Average MLB starter (WAR 1-3, OPS .700-.799)\<newline>'' @
      ''  D  = Below average / fringe starter (WAR 0-1, OPS .600-.699)\<newline>'' @
      ''  F  = Replacement level or worse (WAR < 0, OPS below .600)'')"

definition pitcher_benchmarks :: pystr where
  "pitcher_benchmarks = asc
     (''Use these grade benchmarks for a pitcher:\<newline>'' @
      ''  A+ = Cy Young-caliber (WAR 7+, ERA sub-2.50)\<newline>'' @
      ''  A  = Top-of-rotation / elite closer (WAR 4-7, ERA 2.50-3.25)\<newline>'' @
      ''  B  = Solid starter or high-leverage reliever (WAR 2-4, ERA 3.25-3.75)\<newline>'' @
      ''  C  = League-average (WAR 1-2, ERA 3.75-4.50)\<newline>'' @
      ''  D  = Below average (WAR 0-1, ERA 4.50-5.50)\<newline>'' @
      ''  F  = Replacement level or worse (WAR < 0, ERA 5.50+)'')"

text \<open>
  The branch on \<open>player_type\<close>: the stat lines, the role context and the benchmark table.
\<close>

definition role_parts :: "pyval \<Rightarrow> pydict \<Rightarrow> pystr list \<times> pystr \<times> pystr" where
  "role_parts player_type data =
     (if player_type = PStr (asc ''Batter'')
      then (batter_stat_lines data, asc ''position player (batter)'', batter_benchmarks)
      else (pitcher_stat_lines data, asc ''pitcher'', pitcher_benchmarks))"

text \<open>\<open>"\n".join(lines)\<close>.\<close>

fun join_lines :: "pystr list \<Rightarrow> pystr" where
  "join_lines [] = []"
| "join_lines [l] = l"
| "join_lines (l # ls) = l @ [10] @ join_lines ls"

text \<open>The f-string of the prompt, its five placeholders filled in.\<close>

definition prompt_text :: "pystr \<Rightarrow> pystr \<Rightarrow> pystr \<Rightarrow> pystr \<Rightarrow> pystr \<Rightarrow> pystr" where
  "prompt_text year name role_context grade_benchmarks stats_block =
     asc ''You are an expert MLB baseball analyst with deep knowledge of sabermetrics and historical player performance.\<newline>\<newline>Analyze the following '' @
     year @ asc '' season statistics for '' @ name @ asc '', a '' @ role_context @
     asc ''.\<newline>\<newline>'' @ grade_benchmarks @ asc ''\<newline>\<newline>'' @
     year @ asc '' Season Stats:\<newline>'' @ stats_block @
     asc (''\<newline>\<newline>Your response MUST follow this exact format with these two sections:\<newline>\<newline>'' @
          ''SUMMARY:\<newline>'' @
          ''Write 2-3 paragraphs evaluating the player's season. Discuss their strengths, weaknesses, and how their numbers compare to league averages and position-adjusted expectations. Reference specific stats to support your analysis. Keep the tone professional but engaging, like a baseball analyst writing for a knowledgeable audience.\<newline>\<newline>'' @
          ''GRADE:\<newline>'' @
          ''Assign a single letter grade (A+, A, A-, B+, B, B-, C+, C, C-, D+, D, D-, or F) based on the benchmarks above. Then write one sentence explaining the grade.\<newline>\<newline>'' @
          ''Do not include any other sections or commentary outside of SUMMARY and GRADE.'')"

definition build_prompt :: "pyval \<Rightarrow> pyval \<Rightarrow> pyval \<Rightarrow> pydict \<Rightarrow> pystr" where
  "build_prompt name year player_type data =
     (case role_parts player_type data of
        (stat_lines, role_context, grade_benchmarks) \<Rightarrow>
          prompt_text (py_str year) (py_str name) role_context grade_benchmarks
            (join_lines stat_lines))"

section \<open>The handler of /api/analyze\<close>

text \<open>
  The JSON body of the request, as \<open>request.get_json()\<close> returns it: an object, or any
  other JSON value, of which only the truth value matters, since \<open>data.get\<close> on it
  raises outside the handler's \<open>try\<close> block.
\<close>

datatype json_body = JObject pydict | JOther bool

text \<open>
  \<open>gemini\<close> is the call \<open>get_gemini().generate_content(prompt).text\<close>: the text of the
  answer, or the exception raised.
\<close>

definition analyze_player :: "(pystr \<Rightarrow> pystr result) \<Rightarrow> json_body \<Rightarrow> analysis reply" where
  "analyze_player gemini body =
     (case body of
        JOther t \<Rightarrow>
          if \<not> t then Error 400 (asc ''No data provided'')
          else Unhandled (asc ''AttributeError'')
      | JObject data \<Rightarrow>
          if data = [] then Error 400 (asc ''No data provided'')
          else
            let name = dget data (asc ''name'');
                year = dget data (asc ''year'');
                player_type = dget data (asc ''type'')
            in if \<not> truthy name \<or> \<not> truthy year \<or> \<not> truthy player_type
               then Error 400 (asc ''name, year, and type are required'')
               else (case and_then (gemini (build_prompt name year player_type data))
                                   parse_response of
                       Inl e \<Rightarrow> Error 500 e
                     | Inr r \<Rightarrow> Ok r))"

section \<open>The statistics tables\<close>

text \<open>
  A season table of the statistics provider: its column names and its rows, each row a
  series indexed by the column names. \<open>batting_stats\<close> and \<open>pitching_stats\<close>, the calls
  \<open>pybaseball.batting_stats(year, year, qual=1)\<close> and \<open>pybaseball.pitching_stats(year, year, qual=1)\<close>,
  are parameters of the handlers: they give the table of a year or raise.
\<close>

type_synonym series = pydict

record dataframe =
  columns :: "pystr list"
  table_rows :: "series list"

text \<open>
  The numeric built-ins applied to a cell, \<open>int(v)\<close> and \<open>round(float(v), n)\<close>: each gives
  a value or raises. They are parameters as well.
\<close>

record builtins =
  int_of :: "pyval \<Rightarrow> int result"
  round_float :: "nat \<Rightarrow> pyval \<Rightarrow> pyval result"

text \<open>\<open>row[k]\<close>, which raises \<open>KeyError\<close> on a missing label; \<open>k in row\<close>.\<close>

definition row_item :: "series \<Rightarrow> pystr \<Rightarrow> pyval result" where
  "row_item row k = (case map_of row k of None \<Rightarrow> Inl ([39] @ k @ [39]) | Some v \<Rightarrow> Inr v)"

definition in_row :: "pystr \<Rightarrow> series \<Rightarrow> bool" where
  "in_row k row \<longleftrightarrow> map_of row k \<noteq> None"

text \<open>\<open>int(row.get(k, 0))\<close> and \<open>round(float(row.get(k, 0)), n)\<close>, as dictionary values.\<close>

definition int_cell :: "builtins \<Rightarrow> series \<Rightarrow> string \<Rightarrow> pyval result" where
  "int_cell B row k = and_then (int_of B (dget_default row (asc k) (PInt 0))) (\<lambda>i. Inr (PInt i))"

definition round_cell :: "builtins \<Rightarrow> nat \<Rightarrow> series \<Rightarrow> string \<Rightarrow> pyval result" where
  "round_cell B n row k = round_float B n (dget_default row (asc k) (PInt 0))"

text \<open>
  \<open>df[df[col] == v]\<close>: the rows whose cell in column \<open>col\<close> is the string \<open>v\<close>;
  \<open>df[col]\<close> raises \<open>KeyError\<close> when the table has no such column.
\<close>

definition select_rows :: "dataframe \<Rightarrow> pystr \<Rightarrow> pystr \<Rightarrow> series list result" where
  "select_rows df col v =
     (if col \<in> set (columns df)
      then Inr (filter (\<lambda>row. map_of row col = Some (PStr v)) (table_rows df))
      else Inl ([39] @ col @ [39]))"

text \<open>A dictionary display: the values are computed in order, and the first raise ends it.\<close>

fun collect :: "(pystr \<times> pyval result) list \<Rightarrow> pydict result" where
  "collect [] = Inr []"
| "collect ((k, r) # es) = and_then r (\<lambda>v. and_then (collect es) (\<lambda>d. Inr ((k, v) # d)))"

text \<open>A loop that appends \<open>f row\<close> for each row, ended by the first raise.\<close>

fun map_result :: "('a \<Rightarrow> 'b result) \<Rightarrow> 'a list \<Rightarrow> 'b list result" where
  "map_result f [] = Inr []"
| "map_result f (x # xs) = and_then (f x) (\<lambda>y. and_then (map_result f xs) (\<lambda>ys. Inr (y # ys)))"

text \<open>
  \<open>xs.sort(key=key, reverse=True)\<close>: a stable sort in descending order of the key, which
  the interpreter does by reversing, sorting stably in ascending order and reversing again.
\<close>

definition sort_desc :: "('a \<Rightarrow> int) \<Rightarrow> 'a list \<Rightarrow> 'a list" where
  "sort_desc key xs = rev (sort_key key (rev xs))"

definition MLB_TEAMS :: "(pystr \<times> pystr) list" where
  "MLB_TEAMS = map (\<lambda>(code, name). (asc code, asc name))
     [(''ARI'', ''Arizona Diamondbacks''),
      (''ATL'', ''Atlanta Braves''),
      (''BAL'', ''Baltimore Orioles''),
      (''BOS'', ''Boston Red Sox''),
      (''CHC'', ''Chicago Cubs''),
      (''CHW'', ''Chicago White Sox''),
      (''CIN'', ''Cincinnati Reds''),
      (''CLE'', ''Cleveland Guardians''),
      (''COL'', ''Colorado Rockies''),
      (''DET'', ''Detroit Tigers''),
      (''HOU'', ''Houston Astros''),
      (''KCR'', ''Kansas City Royals''),
      (''LAA'', ''Los Angeles Angels''),
      (''LAD'', ''Los Angeles Dodgers''),
      (''MIA'', ''Miami Marlins''),
      (''MIL'', ''Milwaukee Brewers''),
      (''MIN'', ''Minnesota Twins''),
      (''NYM'', ''New York Mets''),
      (''NYY'', ''New York Yankees''),
      (''OAK'', ''Oakland Athletics''),
      (''PHI'', ''Philadelphia Phillies''),
      (''PIT'', ''Pittsburgh Pirates''),
      (''SDP'', ''San Diego Padres''),
      (''SFG'', ''San Francisco Giants''),
      (''SEA'', ''Seattle Mariners''),
      (''STL'', ''St. Louis Cardinals''),
      (''TBR'', ''Tampa Bay Rays''),
      (''TEX'', ''Texas Rangers''),
      (''TOR'', ''Toronto Blue Jays''),
      (''WSN'', ''Washington Nationals'')]"

section \<open>The handler of /api/players\<close>

record batter_entry =
  b_name :: pyval
  b_type :: pystr
  b_games :: int
  b_avg :: pyval
  b_hr :: int
  b_rbi :: int
  b_ops :: pyval

record pitcher_entry =
  p_name :: pyval
  p_type :: pystr
  p_games :: int
  p_era :: pyval
  p_wins :: int
  p_strikeouts :: int
  p_whip :: pyval

record roster =
  r_team :: pystr
  r_year :: int
  r_batters :: "batter_entry list"
  r_pitchers :: "pitcher_entry list"

definition batter_entry_of :: "builtins \<Rightarrow> series \<Rightarrow> batter_entry result" where
  "batter_entry_of B row =
     and_then (row_item row (asc ''Name'')) (\<lambda>name.
     and_then (int_of B (dget_default row (asc ''G'') (PInt 0))) (\<lambda>games.
     and_then (round_float B 3 (dget_default row (asc ''AVG'') (PInt 0))) (\<lambda>avg.
     and_then (int_of B (dget_default row (asc ''HR'') (PInt 0))) (\<lambda>hr.
     and_then (int_of B (dget_default row (asc ''RBI'') (PInt 0))) (\<lambda>rbi.
     and_then (round_float B 3 (dget_default row (asc ''OPS'') (PInt 0))) (\<lambda>ops.
       Inr \<lparr>b_name = name, b_type = asc ''Batter'', b_games = games, b_avg = avg,
            b_hr = hr, b_rbi = rbi, b_ops = ops\<rparr>))))))"

definition pitcher_entry_of :: "builtins \<Rightarrow> series \<Rightarrow> pitcher_entry result" where
  "pitcher_entry_of B row =
     and_then (row_item row (asc ''Name'')) (\<lambda>name.
     and_then (int_of B (dget_default row (asc ''G'') (PInt 0))) (\<lambda>games.
     and_then (round_float B 2 (dget_default row (asc ''ERA'') (PInt 0))) (\<lambda>era.
     and_then (int_of B (dget_default row (asc ''W'') (PInt 0))) (\<lambda>wins.
     and_then (int_of B (dget_default row (asc ''SO'') (PInt 0))) (\<lambda>strikeouts.
     and_then (round_float B 2 (dget_default row (asc ''WHIP'') (PInt 0))) (\<lambda>whip.
       Inr \<lparr>p_name = name, p_type = asc ''Pitcher'', p_games = games, p_era = era,
            p_wins = wins, p_strikeouts = strikeouts, p_whip = whip\<rparr>))))))"

text \<open>The body of the handler's \<open>try\<close> block.\<close>

definition team_roster ::
  "builtins \<Rightarrow> (int \<Rightarrow> dataframe result) \<Rightarrow> (int \<Rightarrow> dataframe result) \<Rightarrow> pystr \<Rightarrow> int \<Rightarrow> roster result"
where
  "team_roster B batting_stats pitching_stats team year =
     and_then (batting_stats year) (\<lambda>batters_df.
     and_then (pitching_stats year) (\<lambda>pitchers_df.
     and_then (select_rows batters_df (asc ''Team'') team) (\<lambda>team_batters.
     and_then (select_rows pitchers_df (asc ''Team'') team) (\<lambda>team_pitchers.
     and_then (map_result (batter_entry_of B) team_batters) (\<lambda>batters_list.
     and_then (map_result (pitcher_entry_of B) team_pitchers) (\<lambda>pitchers_list.
       Inr \<lparr>r_team = (case map_of MLB_TEAMS team of None \<Rightarrow> team | Some name \<Rightarrow> name),
            r_year = year,
            r_batters = sort_desc b_games batters_list,
            r_pitchers = sort_desc p_games pitchers_list\<rparr>))))))"

text \<open>
  \<open>team\<close> is \<open>request.args.get("team")\<close> and \<open>year\<close> is
  \<open>request.args.get("year", type=int)\<close>, each \<open>None\<close> when the request has no such
  parameter (or, for the year, none that reads as an integer).
\<close>

definition get_players ::
  "builtins \<Rightarrow> (int \<Rightarrow> dataframe result) \<Rightarrow> (int \<Rightarrow> dataframe result) \<Rightarrow>
   pystr option \<Rightarrow> int option \<Rightarrow> roster reply"
where
  "get_players B batting_stats pitching_stats team year =
     (case (team, year) of
        (Some t, Some y) \<Rightarrow>
          if t = [] \<or> y = 0 then Error 400 (asc ''Team and year are required'')
          else (case team_roster B batting_stats pitching_stats t y of
                  Inl e \<Rightarrow> Error 500 e
                | Inr r \<Rightarrow> Ok r)
      | _ \<Rightarrow> Error 400 (asc ''Team and year are required''))"

section \<open>The handler of /api/player-stats\<close>

definition batter_stats :: "builtins \<Rightarrow> pystr \<Rightarrow> int \<Rightarrow> series \<Rightarrow> pydict result" where
  "batter_stats B player_name year row = collect
     [(asc ''name'', Inr (PStr player_name)),
      (asc ''year'', Inr (PInt year)),
      (asc ''type'', Inr (PStr (asc ''Batter''))),
      (asc ''team'', Inr (dget_default row (asc ''Team'') (PStr (asc ''N/A'')))),
      (asc ''games'', int_cell B row ''G''),
      (asc ''at_bats'', int_cell B row ''AB''),
      (asc ''hits'', int_cell B row ''H''),
      (asc ''doubles'', int_cell B row ''2B''),
      (asc ''triples'', int_cell B row ''3B''),
      (asc ''home_runs'', int_cell B row ''HR''),
      (asc ''rbi'', int_cell B row ''RBI''),
      (asc ''stolen_bases'', int_cell B row ''SB''),
      (asc ''walks'', int_cell B row ''BB''),
      (asc ''strikeouts'', int_cell B row ''SO''),
      (asc ''avg'', round_cell B 3 row ''AVG''),
      (asc ''obp'', round_cell B 3 row ''OBP''),
      (asc ''slg'', round_cell B 3 row ''SLG''),
      (asc ''ops'', round_cell B 3 row ''OPS''),
      (asc ''war'', round_cell B 1 row ''WAR''),
      (asc ''wrc_plus'',
         if in_row (asc ''wRC+'') row then int_cell B row ''wRC+'' else Inr (PStr (asc ''N/A'')))]"

definition pitcher_stats :: "builtins \<Rightarrow> pystr \<Rightarrow> int \<Rightarrow> series \<Rightarrow> pydict result" where
  "pitcher_stats B player_name year row = collect
     [(asc ''name'', Inr (PStr player_name)),
      (asc ''year'', Inr (PInt year)),
      (asc ''type'', Inr (PStr (asc ''Pitcher''))),
      (asc ''team'', Inr (dget_default row (asc ''Team'') (PStr (asc ''N/A'')))),
      (asc ''games'', int_cell B row ''G''),
      (asc ''games_started'', int_cell B row ''GS''),
      (asc ''wins'', int_cell B row ''W''),
      (asc ''losses'', int_cell B row ''L''),
      (asc ''saves'', int_cell B row ''SV''),
      (asc ''innings_pitched'', round_cell B 1 row ''IP''),
      (asc ''strikeouts'', int_cell B row ''SO''),
      (asc ''walks'', int_cell B row ''BB''),
      (asc ''era'', round_cell B 2 row ''ERA''),
      (asc ''whip'', round_cell B 2 row ''WHIP''),
      (asc ''k9'',
         if in_row (asc ''K/9'') row then round_cell B 1 row ''K/9'' else Inr (PStr (asc ''N/A''))),
      (asc ''bb9'',
         if in_row (asc ''BB/9'') row then round_cell B 1 row ''BB/9'' else Inr (PStr (asc ''N/A''))),
      (asc ''fip'',
         if in_row (asc ''FIP'') row then round_cell B 2 row ''FIP'' else Inr (PStr (asc ''N/A''))),
      (asc ''war'', round_cell B 1 row ''WAR'')]"

text \<open>
  One branch of the handler: the season table is fetched, the rows named \<open>player_name\<close>
  are selected, and the first one is turned into the answer. \<open>Inr None\<close> is the early
  return of the 404.
\<close>

definition lookup_player ::
  "(int \<Rightarrow> dataframe result) \<Rightarrow> (series \<Rightarrow> pydict result) \<Rightarrow> pystr \<Rightarrow> int \<Rightarrow> pydict option result"
where
  "lookup_player season_stats stats_of player_name year =
     and_then (season_stats year) (\<lambda>df.
     and_then (select_rows df (asc ''Name'') player_name) (\<lambda>player_row.
       case player_row of
         [] \<Rightarrow> Inr None
       | row # _ \<Rightarrow> and_then (stats_of row) (\<lambda>stats. Inr (Some stats))))"

text \<open>
  \<open>name\<close> is \<open>request.args.get("name")\<close>, \<open>year\<close> is \<open>request.args.get("year", type=int)\<close> and
  \<open>ptype\<close> is the \<open>type\<close> parameter of the request, \<open>None\<close> when it has none.
\<close>

definition get_player_stats ::
  "builtins \<Rightarrow> (int \<Rightarrow> dataframe result) \<Rightarrow> (int \<Rightarrow> dataframe result) \<Rightarrow>
   pystr option \<Rightarrow> int option \<Rightarrow> pystr option \<Rightarrow> pydict reply"
where
  "get_player_stats B batting_stats pitching_stats name year ptype =
     (let player_type = (case ptype of None \<Rightarrow> asc ''Batter'' | Some t \<Rightarrow> t) in
      case (name, year) of
        (Some player_name, Some y) \<Rightarrow>
          if player_name = [] \<or> y = 0 then Error 400 (asc ''Player name and year are required'')
          else
            (case (if player_type = asc ''Batter''
                   then lookup_player batting_stats (batter_stats B player_name y) player_name y
                   else lookup_player pitching_stats (pitcher_stats B player_name y) player_name y) of
               Inl e \<Rightarrow> Error 500 e
             | Inr None \<Rightarrow> Error 404 (asc ''Player not found'')
             | Inr (Some stats) \<Rightarrow> Ok stats)
      | _ \<Rightarrow> Error 400 (asc ''Player name and year are required''))"

section \<open>Sample data\<close>

text \<open>
  An instance of the built-ins for the examples. It agrees with the interpreter on the
  cells the examples hold: \<open>int\<close> of an integer or a boolean, and
  \<open>round(float(v), n)\<close> of an integer or of a float that has no more than \<open>n\<close> decimals
  already. On every other cell it raises, which the interpreter does not always do
  (\<open>int\<close> of a float truncates, \<open>round\<close> of a longer float rounds); no theorem but the
  examples depends on it.
\<close>

definition sample_builtins :: builtins where
  "sample_builtins =
     \<lparr>int_of = (\<lambda>v. case v of
                  PInt i \<Rightarrow> Inr i
                | PBool b \<Rightarrow> Inr (if b then 1 else 0)
                | _ \<Rightarrow> Inl (asc ''int() argument must be a string, a bytes-like object or a real number'')),
      round_float = (\<lambda>n v. case v of
                  POther t s \<Rightarrow> Inr (POther t s)
                | PInt i \<Rightarrow> Inr (POther (i \<noteq> 0) (py_str (PInt i) @ asc ''.0''))
                | _ \<Rightarrow> Inl (asc ''could not convert to float''))\<rparr>"

text \<open>Two small season tables.\<close>

definition sample_batting :: dataframe where
  "sample_batting =
     \<lparr>columns = map asc [''Name'', ''Team'', ''G'', ''HR'', ''RBI'', ''AVG'', ''OPS''],
      table_rows =
        [[(asc ''Name'', PStr (asc ''Aaron Judge'')), (asc ''Team'', PStr (asc ''NYY'')),
          (asc ''G'', PInt 106), (asc ''HR'', PInt 37), (asc ''RBI'', PInt 75),
          (asc ''AVG'', POther True (asc ''0.267'')), (asc ''OPS'', POther True (asc ''1.019''))],
         [(asc ''Name'', PStr (asc ''Gleyber Torres'')), (asc ''Team'', PStr (asc ''NYY'')),
          (asc ''G'', PInt 158), (asc ''HR'', PInt 25), (asc ''RBI'', PInt 68),
          (asc ''AVG'', POther True (asc ''0.273'')), (asc ''OPS'', POther True (asc ''0.8''))],
         [(asc ''Name'', PStr (asc ''Rafael Devers'')), (asc ''Team'', PStr (asc ''BOS'')),
          (asc ''G'', PInt 153), (asc ''HR'', PInt 33), (asc ''RBI'', PInt 100),
          (asc ''AVG'', POther True (asc ''0.271'')), (asc ''OPS'', POther True (asc ''0.851''))]]\<rparr>"

definition sample_pitching :: dataframe where
  "sample_pitching =
     \<lparr>columns = map asc [''Name'', ''Team'', ''G'', ''W'', ''SO'', ''ERA'', ''WHIP''],
      table_rows =
        [[(asc ''Name'', PStr (asc ''Gerrit Cole'')), (asc ''Team'', PStr (asc ''NYY'')),
          (asc ''G'', PInt 33), (asc ''W'', PInt 15), (asc ''SO'', PInt 222),
          (asc ''ERA'', POther True (asc ''2.63'')), (asc ''WHIP'', POther True (asc ''0.98''))],
         [(asc ''Name'', PStr (asc ''Clay Holmes'')), (asc ''Team'', PStr (asc ''NYY'')),
          (asc ''G'', PInt 66), (asc ''W'', PInt 4), (asc ''SO'', PInt 71),
          (asc ''ERA'', POther True (asc ''2.86'')), (asc ''WHIP'', POther True (asc ''1.17''))]]\<rparr>"

text \<open>
  The answer of /api/player-stats for the batter \<open>Aaron Judge\<close> on the sample tables; the
  columns the sample table lacks give the defaults.
\<close>

definition sample_payload :: pydict where
  "sample_payload =
     [(asc ''name'', PStr (asc ''Aaron Judge'')),
      (asc ''year'', PInt 2023),
      (asc ''type'', PStr (asc ''Batter'')),
      (asc ''team'', PStr (asc ''NYY'')),
      (asc ''games'', PInt 106),
      (asc ''at_bats'', PInt 0),
      (asc ''hits'', PInt 0),
      (asc ''doubles'', PInt 0),
      (asc ''triples'', PInt 0),
      (asc ''home_runs'', PInt 37),
      (asc ''rbi'', PInt 75),
      (asc ''stolen_bases'', PInt 0),
      (asc ''walks'', PInt 0),
      (asc ''strikeouts'', PInt 0),
      (asc ''avg'', POther True (asc ''0.267'')),
      (asc ''obp'', POther False (asc ''0.0'')),
      (asc ''slg'', POther False (asc ''0.0'')),
      (asc ''ops'', POther True (asc ''1.019'')),
      (asc ''war'', POther False (asc ''0.0'')),
      (asc ''wrc_plus'', PStr (asc ''N/A''))]"

text \<open>
  The answer of /api/player-stats for the pitcher \<open>Gerrit Cole\<close> on the sample tables.
\<close>

definition sample_pitcher_payload :: pydict where
  "sample_pitcher_payload =
     [(asc ''name'', PStr (asc ''Gerrit Cole'')),
      (asc ''year'', PInt 2023),
      (asc ''type'', PStr (asc ''Pitcher'')),
      (asc ''team'', PStr (asc ''NYY'')),
      (asc ''games'', PInt 33),
      (asc ''games_started'', PInt 0),
      (asc ''wins'', PInt 15),
      (asc ''losses'', PInt 0),
      (asc ''saves'', PInt 0),
      (asc ''innings_pitched'', POther False (asc ''0.0'')),
      (asc ''strikeouts'', PInt 222),
      (asc ''walks'', PInt 0),
      (asc ''era'', POther True (asc ''2.63'')),
      (asc ''whip'', POther True (asc ''0.98'')),
      (asc ''k9'', PStr (asc ''N/A'')),
      (asc ''bb9'', PStr (asc ''N/A'')),
      (asc ''fip'', PStr (asc ''N/A'')),
      (asc ''war'', POther False (asc ''0.0''))]"

text \<open>
  A model that answers only a prompt that contains the benchmark table of the pitchers.
\<close>

definition pitcher_only_model :: "pystr \<Rightarrow> pystr result" where
  "pitcher_only_model prompt =
     (if py_in pitcher_benchmarks prompt then Inr (asc ''SUMMARY: ok GRADE: A'')
      else Inl (asc ''not a pitcher prompt''))"

section \<open>Substrings, stripping and splitting\<close>

lemma py_find_None_iff: "py_find m s = None \<longleftrightarrow> \<not> sublist m s"
  by (induction s) (auto simp: sublist_Cons_right)

lemma py_in_sublist: "py_in m s \<longleftrightarrow> sublist m s"
  by (simp add: py_in_def py_find_None_iff)

lemma sublist_dropWhile_iff:
  assumes "m \<noteq> []" "\<not> P (hd m)"
  shows "sublist m (dropWhile P s) \<longleftrightarrow> sublist m s"
proof (induction s)
  case Nil
  then show ?case by simp
next
  case (Cons x xs)
  show ?case
  proof (cases "P x")
    case True
    with assms have "hd m \<noteq> x" by auto
    with assms(1) have "sublist m (x # xs) \<longleftrightarrow> sublist m xs"
      by (cases m) (auto simp: sublist_Cons_right)
    with True Cons show ?thesis by simp
  next
    case False
    then show ?thesis by simp
  qed
qed

lemma sublist_strip_iff:
  assumes "m \<noteq> []" "\<not> is_space (hd m)" "\<not> is_space (last m)"
  shows "sublist m (py_strip s) \<longleftrightarrow> sublist m s"
proof -
  have r: "rev m \<noteq> []" "\<not> is_space (hd (rev m))"
    using assms by (simp_all add: hd_rev)
  have "sublist m (py_strip s) \<longleftrightarrow> sublist (rev m) (dropWhile is_space (rev (dropWhile is_space s)))"
    unfolding py_strip_def by (simp add: sublist_rev_right)
  also have "\<dots> \<longleftrightarrow> sublist (rev m) (rev (dropWhile is_space s))"
    using r by (rule sublist_dropWhile_iff)
  also have "\<dots> \<longleftrightarrow> sublist m (dropWhile is_space s)"
    by simp
  also have "\<dots> \<longleftrightarrow> sublist m s"
    using assms(1,2) by (rule sublist_dropWhile_iff)
  finally show ?thesis .
qed

lemma SUMMARY_shape: "SUMMARY \<noteq> []" "\<not> is_space (hd SUMMARY)" "\<not> is_space (last SUMMARY)"
  by (simp_all add: SUMMARY_def asc_def is_space_def)

lemma GRADE_shape: "GRADE \<noteq> []" "\<not> is_space (hd GRADE)" "\<not> is_space (last GRADE)"
  by (simp_all add: GRADE_def asc_def is_space_def)

lemma py_in_strip_SUMMARY: "py_in SUMMARY (py_strip s) \<longleftrightarrow> py_in SUMMARY s"
  by (simp add: py_in_sublist sublist_strip_iff SUMMARY_shape)

lemma py_in_strip_GRADE: "py_in GRADE (py_strip s) \<longleftrightarrow> py_in GRADE s"
  by (simp add: py_in_sublist sublist_strip_iff GRADE_shape)

lemma split_from_cur: "cur \<noteq> [] \<Longrightarrow> split_from cur s \<noteq> []"
  by (induction s arbitrary: cur) auto

lemma split_from_nonspace: "\<exists>c \<in> set s. \<not> is_space c \<Longrightarrow> split_from cur s \<noteq> []"
  by (induction s arbitrary: cur) (auto simp: split_from_cur)

lemma strip_nonspace:
  assumes "py_strip s \<noteq> []"
  shows "\<exists>c \<in> set (py_strip s). \<not> is_space c"
proof -
  let ?d = "dropWhile is_space (rev (dropWhile is_space s))"
  from assms have ne: "?d \<noteq> []" by (simp add: py_strip_def)
  then have "\<not> is_space (hd ?d)" by (rule hd_dropWhile)
  moreover from ne have "hd ?d \<in> set ?d" by simp
  ultimately show ?thesis unfolding py_strip_def by (metis set_rev)
qed

lemma first_token_strip: "\<exists>t. first_token (py_strip s) = Inr t"
proof (cases "py_strip s = []")
  case True
  then show ?thesis by (simp add: first_token_def)
next
  case False
  then have "py_split (py_strip s) \<noteq> []"
    unfolding py_split_def by (intro split_from_nonspace strip_nonspace)
  with False show ?thesis
    by (auto simp: first_token_def split: list.splits)
qed

lemma set_scan_order: "set scan_order = set valid_grades"
  by (auto simp: scan_order_def valid_grades_def)

lemma find_scan:
  "find P scan_order = Some g \<Longrightarrow> g \<in> set valid_grades \<and> P g"
  unfolding set_scan_order [symmetric] by (auto simp: find_Some_iff)

lemma grade_of_block_cases:
  assumes "first_token gb = Inr t"
  shows "grade_of_block gb =
           (if t \<in> set valid_grades then Inr (t, gb)
            else case find (\<lambda>g. py_in g gb) scan_order of
                   None \<Rightarrow> Inr ([], []) | Some g \<Rightarrow> Inr (g, gb))"
  using assms by (simp add: grade_of_block_def and_then_def)

lemma grade_of_block_strip:
  "\<exists>g gt. grade_of_block (py_strip s) = Inr (g, gt) \<and> (g = [] \<or> g \<in> set valid_grades)"
proof -
  obtain t where t: "first_token (py_strip s) = Inr t"
    using first_token_strip by blast
  show ?thesis
    unfolding grade_of_block_cases [OF t]
    by (auto split: option.splits dest: find_scan)
qed

lemma split_sections_total:
  assumes "py_in SUMMARY raw" "py_in GRADE raw"
  shows "\<exists>i j. py_find SUMMARY raw = Some i \<and> py_find GRADE raw = Some j \<and>
           split_sections raw =
             Inr (py_strip (slice raw (i + length SUMMARY) j), py_strip (drop (j + length GRADE) raw))"
  using assms by (auto simp: py_in_def split_sections_def py_index_def and_then_def)

lemma parse_response_total:
  "\<exists>r. parse_response text = Inr r \<and> (grade r = [] \<or> grade r \<in> set valid_grades)"
proof (cases "py_in SUMMARY (py_strip text) \<and> py_in GRADE (py_strip text)")
  case False
  then show ?thesis by (auto simp: parse_response_def)
next
  case True
  then obtain i j where s: "split_sections (py_strip text) =
      Inr (py_strip (slice (py_strip text) (i + length SUMMARY) j), py_strip (drop (j + length GRADE) (py_strip text)))"
    using split_sections_total by blast
  obtain g gt where g: "grade_of_block (py_strip (drop (j + length GRADE) (py_strip text))) = Inr (g, gt)"
     "g = [] \<or> g \<in> set valid_grades"
    using grade_of_block_strip by blast
  from True s g show ?thesis
    by (simp add: parse_response_def and_then_def)
qed

lemma asc_inject [simp]: "asc a = asc b \<longleftrightarrow> a = b"
  unfolding asc_def by (simp add: inj_map_eq_map inj_of_char)

lemma find_append_result:
  "find P (xs @ ys) = (case find P xs of None \<Rightarrow> find P ys | Some x \<Rightarrow> Some x)"
  by (induction xs) auto

lemma find_in_front:
  assumes "\<exists>x \<in> set xs. P x"
  shows "\<exists>g \<in> set xs. find P (xs @ ys) = Some g"
proof -
  from assms obtain g where "find P xs = Some g"
    by (cases "find P xs") (auto simp: find_None_iff)
  moreover then have "g \<in> set xs" by (auto simp: find_Some_iff)
  ultimately show ?thesis by (auto simp: find_append_result)
qed

lemma split_from_sublist: "t \<in> set (split_from cur s) \<Longrightarrow> sublist t (cur @ s)"
proof (induction s arbitrary: cur)
  case Nil
  then show ?case by (auto split: if_splits)
next
  case (Cons c cs)
  show ?case
  proof (cases "is_space c")
    case False
    with Cons.prems have "t \<in> set (split_from (cur @ [c]) cs)" by simp
    from Cons.IH [OF this] show ?thesis by simp
  next
    case True
    with Cons.prems have "t = cur \<or> t \<in> set (split_from [] cs)"
      by (auto split: if_splits)
    then show ?thesis
    proof
      assume "t = cur"
      then show ?thesis by simp
    next
      assume "t \<in> set (split_from [] cs)"
      from Cons.IH [OF this] have "sublist t cs" by simp
      then obtain ps ss where "cs = ps @ t @ ss" by (auto simp: sublist_def)
      then have "cur @ c # cs = (cur @ c # ps) @ t @ ss" by simp
      then show ?thesis unfolding sublist_def by blast
    qed
  qed
qed

lemma first_token_in_block:
  assumes "first_token gb = Inr t"
  shows "py_in t gb"
proof (cases "gb = []")
  case True
  with assms show ?thesis by (simp add: first_token_def py_in_def)
next
  case False
  with assms have "t \<in> set (py_split gb)"
    by (auto simp: first_token_def split: list.splits)
  then have "sublist t gb"
    unfolding py_split_def by (auto dest: split_from_sublist)
  then show ?thesis by (simp add: py_in_sublist)
qed

lemma valid_grades_nonempty: "[] \<notin> set valid_grades"
  by (simp add: valid_grades_def asc_def)

lemma grade_of_block_empty_iff:
  assumes "grade_of_block gb = Inr (g, gt)"
  shows "g = [] \<longleftrightarrow> (\<forall>v \<in> set valid_grades. \<not> py_in v gb)"
proof -
  from assms obtain t where t: "first_token gb = Inr t"
    by (cases "first_token gb") (auto simp: grade_of_block_def and_then_def)
  show ?thesis
  proof (cases "t \<in> set valid_grades")
    case True
    with assms t have "g = t" by (simp add: grade_of_block_cases)
    with True t show ?thesis
      using first_token_in_block valid_grades_nonempty by auto
  next
    case False
    show ?thesis
    proof (cases "find (\<lambda>g. py_in g gb) scan_order")
      case None
      with assms t False have "g = []" by (simp add: grade_of_block_cases)
      with None show ?thesis by (auto simp: find_None_iff set_scan_order)
    next
      case (Some h)
      with assms t False have "g = h" by (simp add: grade_of_block_cases)
      with find_scan [OF Some] show ?thesis
        using valid_grades_nonempty by auto
    qed
  qed
qed

lemmas parser_defs = asc_def py_in_def py_strip_def is_space_def SUMMARY_def GRADE_def
  split_sections_def py_index_def and_then_def slice_def first_token_def py_split_def
  grade_of_block_def parse_response_def valid_grades_def scan_order_def

section \<open>The grade parser\<close>

lemma scan_order_parts:
  "scan_order = modifier_tokens @ bare_tokens @ [asc ''F'']"
  "modifier_tokens = map asc [''A+'', ''A-'', ''B+'', ''B-'', ''C+'', ''C-'', ''D+'', ''D-'']"
  "bare_tokens = map asc [''A'', ''B'', ''C'', ''D'']"
  by (simp_all add: modifier_tokens_def bare_tokens_def scan_order_def)

text \<open>
  C1: when the answer holds both markers and the first whitespace-delimited token of the
  grade block is a valid grade, that token is the grade letter and the whole block is the
  grade text, whatever else the block contains; the tokens of \<open>scan_order\<close> are not
  looked for.
\<close>

theorem first_token_takes_precedence:
  assumes "py_in SUMMARY text" and "py_in GRADE text"
    and "split_sections (py_strip text) = Inr (s, gb)"
    and "first_token gb = Inr t" and "t \<in> set valid_grades"
  shows "grade_of_block gb = Inr (t, gb) \<and>
         parse_response text = Inr \<lparr>summary = s, grade = t, grade_text = gb\<rparr>"
proof -
  from assms(4,5) have g: "grade_of_block gb = Inr (t, gb)"
    by (simp add: grade_of_block_cases)
  from assms(1,2) have "py_in SUMMARY (py_strip text) \<and> py_in GRADE (py_strip text)"
    by (simp add: py_in_strip_SUMMARY py_in_strip_GRADE)
  with assms(3) g show ?thesis
    by (simp add: parse_response_def and_then_def)
qed

text \<open>The block \<open>B overall, nearly a B+\<close> begins with \<open>B\<close> and contains \<open>B+\<close>: the grade is \<open>B\<close>.\<close>

theorem first_token_takes_precedence_witness:
  "py_in SUMMARY (asc ''SUMMARY: Good year. GRADE: B overall, nearly a B+'') \<and>
   py_in GRADE (asc ''SUMMARY: Good year. GRADE: B overall, nearly a B+'') \<and>
   first_token (asc ''B overall, nearly a B+'') = Inr (asc ''B'') \<and>
   asc ''B'' \<in> set valid_grades \<and>
   py_in (asc ''B+'') (asc ''B overall, nearly a B+'') \<and>
   parse_response (asc ''SUMMARY: Good year. GRADE: B overall, nearly a B+'') =
     Inr \<lparr>summary = asc ''Good year.'', grade = asc ''B'',
          grade_text = asc ''B overall, nearly a B+''\<rparr>"
proof -
  let ?T = "asc ''SUMMARY: Good year. GRADE: B overall, nearly a B+''"
  let ?G = "asc ''B overall, nearly a B+''"
  have h1: "py_in SUMMARY ?T" by (simp add: parser_defs)
  have h2: "py_in GRADE ?T" by (simp add: parser_defs)
  have h3: "split_sections (py_strip ?T) = Inr (asc ''Good year.'', ?G)"
    by (simp add: parser_defs)
  have h4: "first_token ?G = Inr (asc ''B'')" by (simp add: parser_defs)
  have h5: "asc ''B'' \<in> set valid_grades" by (simp add: valid_grades_def)
  have h6: "py_in (asc ''B+'') ?G" by (simp add: parser_defs)
  from first_token_takes_precedence [OF h1 h2 h3 h4 h5] h1 h2 h4 h5 h6
  show ?thesis by blast
qed

text \<open>
  C2, as stated, fails: the block below has no valid first token and holds \<open>A-\<close>
  (at index 8) before a later \<open>A\<close>, yet its grade is \<open>A+\<close>, which is tried first
  and occurs at the end of the block.
\<close>

theorem fallback_scan_counterexample:
  "first_token (asc ''Between A- and A, not A+'') = Inr (asc ''Between'') \<and>
   asc ''Between'' \<notin> set valid_grades \<and>
   py_find (asc ''A-'') (asc ''Between A- and A, not A+'') = Some 8 \<and>
   py_find (asc ''A'') (drop 10 (asc ''Between A- and A, not A+'')) = Some 5 \<and>
   grade_of_block (asc ''Between A- and A, not A+'') =
     Inr (asc ''A+'', asc ''Between A- and A, not A+'') \<and>
   asc ''A+'' \<noteq> asc ''A-''"
  by (simp add: parser_defs)

lemma find_first_index:
  assumes "i < length xs" and "P (xs ! i)" and "\<forall>j<i. \<not> P (xs ! j)"
  shows "find P xs = Some (xs ! i)"
  using assms by (auto simp: find_Some_iff)

lemma find_least_index:
  assumes "find P xs = Some x"
  shows "\<exists>i<length xs. x = xs ! i \<and> P (xs ! i) \<and> (\<forall>j<i. \<not> P (xs ! j))"
  using assms by (auto simp: find_Some_iff)

text \<open>
  C2, amended: when the first token of the grade block is no valid grade, the tokens are
  tried in the order \<open>A+\<close>, \<open>A-\<close>, \<open>B+\<close>, \<open>B-\<close>, \<open>C+\<close>, \<open>C-\<close>, \<open>D+\<close>,
  \<open>D-\<close>, \<open>A\<close>, \<open>B\<close>, \<open>C\<close>, \<open>D\<close>, \<open>F\<close>, and the grade is the first token of this
  list that occurs in the block, with the block as grade text; grade and grade text are
  empty when none occurs. So a modifier token that occurs wins over every bare letter, a
  bare letter wins over \<open>F\<close>, and a block that contains \<open>A-\<close> never yields \<open>A\<close>; it
  yields \<open>A-\<close> when it does not also contain \<open>A+\<close>.
\<close>

theorem fallback_scan_priority:
  assumes "first_token gb = Inr t" and "t \<notin> set valid_grades"
  shows "scan_order = map asc [''A+'', ''A-'', ''B+'', ''B-'', ''C+'', ''C-'', ''D+'', ''D-'',
                               ''A'', ''B'', ''C'', ''D'', ''F''] \<and>
         (\<exists>g gt. grade_of_block gb = Inr (g, gt) \<and>
           ((\<forall>v \<in> set scan_order. \<not> py_in v gb) \<longrightarrow> g = [] \<and> gt = []) \<and>
           (\<forall>i<length scan_order.
              py_in (scan_order ! i) gb \<and> (\<forall>j<i. \<not> py_in (scan_order ! j) gb)
              \<longrightarrow> g = scan_order ! i \<and> gt = gb) \<and>
           (g \<noteq> [] \<longrightarrow>
              (\<exists>i<length scan_order. g = scan_order ! i \<and> py_in g gb \<and>
                 (\<forall>j<i. \<not> py_in (scan_order ! j) gb)) \<and> gt = gb) \<and>
           ((\<exists>m \<in> set modifier_tokens. py_in m gb) \<longrightarrow> g \<in> set modifier_tokens) \<and>
           ((\<forall>m \<in> set modifier_tokens. \<not> py_in m gb) \<and> (\<exists>b \<in> set bare_tokens. py_in b gb)
              \<longrightarrow> g \<in> set bare_tokens) \<and>
           ((\<forall>m \<in> set (modifier_tokens @ bare_tokens). \<not> py_in m gb) \<and> py_in (asc ''F'') gb
              \<longrightarrow> g = asc ''F'') \<and>
           (py_in (asc ''A-'') gb \<and> \<not> py_in (asc ''A+'') gb \<longrightarrow> g = asc ''A-'') \<and>
           (py_in (asc ''A-'') gb \<longrightarrow> g \<noteq> asc ''A''))"
proof
  show "scan_order = map asc [''A+'', ''A-'', ''B+'', ''B-'', ''C+'', ''C-'', ''D+'', ''D-'',
                               ''A'', ''B'', ''C'', ''D'', ''F'']"
    by (rule scan_order_def)
next
  let ?P = "\<lambda>g. py_in g gb"
  let ?g = "case find ?P scan_order of None \<Rightarrow> [] | Some g \<Rightarrow> g"
  let ?gt = "case find ?P scan_order of None \<Rightarrow> [] | Some g \<Rightarrow> gb"
  from assms have eq: "grade_of_block gb = Inr (?g, ?gt)"
    by (simp add: grade_of_block_cases split: option.splits)
  have none: "?g = [] \<and> ?gt = []" if "\<forall>v \<in> set scan_order. \<not> py_in v gb"
  proof -
    from that have "find ?P scan_order = None" by (simp add: find_None_iff)
    then show ?thesis by simp
  qed
  have first: "\<forall>i<length scan_order.
              py_in (scan_order ! i) gb \<and> (\<forall>j<i. \<not> py_in (scan_order ! j) gb)
              \<longrightarrow> ?g = scan_order ! i \<and> ?gt = gb"
  proof (intro allI impI)
    fix i
    assume i: "i < length scan_order"
      and p: "py_in (scan_order ! i) gb \<and> (\<forall>j<i. \<not> py_in (scan_order ! j) gb)"
    from p have "find ?P scan_order = Some (scan_order ! i)"
      by (intro find_first_index [OF i]) simp_all
    then show "?g = scan_order ! i \<and> ?gt = gb" by simp
  qed
  have some: "(\<exists>i<length scan_order. ?g = scan_order ! i \<and> py_in ?g gb \<and>
                 (\<forall>j<i. \<not> py_in (scan_order ! j) gb)) \<and> ?gt = gb" if "?g \<noteq> []"
  proof (cases "find ?P scan_order")
    case None
    with that show ?thesis by simp
  next
    case (Some x)
    from find_least_index [OF Some] obtain i where
      "i < length scan_order" "x = scan_order ! i" "py_in (scan_order ! i) gb"
      "\<forall>j<i. \<not> py_in (scan_order ! j) gb" by (elim exE conjE)
    with Some show ?thesis by auto
  qed
  have mods: "?g \<in> set modifier_tokens" if "\<exists>m \<in> set modifier_tokens. py_in m gb"
    using find_in_front [OF that, of "bare_tokens @ [asc ''F'']"]
    by (auto simp: scan_order_parts(1))
  have bare: "?g \<in> set bare_tokens"
    if "\<forall>m \<in> set modifier_tokens. \<not> py_in m gb" "\<exists>b \<in> set bare_tokens. py_in b gb"
  proof -
    from that(1) have "find ?P modifier_tokens = None" by (simp add: find_None_iff)
    then have "find ?P scan_order = find ?P (bare_tokens @ [asc ''F''])"
      by (simp add: scan_order_parts(1) find_append_result)
    with find_in_front [OF that(2), of "[asc ''F'']"] show ?thesis by auto
  qed
  have f: "?g = asc ''F''"
    if "\<forall>m \<in> set (modifier_tokens @ bare_tokens). \<not> py_in m gb" "py_in (asc ''F'') gb"
  proof -
    from that(1) have "find ?P (modifier_tokens @ bare_tokens) = None"
      by (simp only: find_None_iff) blast
    then have "find ?P scan_order = find ?P [asc ''F'']"
      using find_append_result [of ?P "modifier_tokens @ bare_tokens" "[asc ''F'']"]
      by (simp add: scan_order_parts(1))
    with that(2) show ?thesis by simp
  qed
  have am: "?g = asc ''A-''" if "py_in (asc ''A-'') gb" "\<not> py_in (asc ''A+'') gb"
    using that by (simp add: scan_order_def)
  have na: "?g \<noteq> asc ''A''" if "py_in (asc ''A-'') gb"
  proof -
    have "asc ''A-'' \<in> set modifier_tokens" by (simp add: scan_order_parts(2))
    with that have "?g \<in> set modifier_tokens" by (intro mods) blast
    then show ?thesis by (auto simp: scan_order_parts(2))
  qed
  show "\<exists>g gt. grade_of_block gb = Inr (g, gt) \<and>
           ((\<forall>v \<in> set scan_order. \<not> py_in v gb) \<longrightarrow> g = [] \<and> gt = []) \<and>
           (\<forall>i<length scan_order.
              py_in (scan_order ! i) gb \<and> (\<forall>j<i. \<not> py_in (scan_order ! j) gb)
              \<longrightarrow> g = scan_order ! i \<and> gt = gb) \<and>
           (g \<noteq> [] \<longrightarrow>
              (\<exists>i<length scan_order. g = scan_order ! i \<and> py_in g gb \<and>
                 (\<forall>j<i. \<not> py_in (scan_order ! j) gb)) \<and> gt = gb) \<and>
           ((\<exists>m \<in> set modifier_tokens. py_in m gb) \<longrightarrow> g \<in> set modifier_tokens) \<and>
           ((\<forall>m \<in> set modifier_tokens. \<not> py_in m gb) \<and> (\<exists>b \<in> set bare_tokens. py_in b gb)
              \<longrightarrow> g \<in> set bare_tokens) \<and>
           ((\<forall>m \<in> set (modifier_tokens @ bare_tokens). \<not> py_in m gb) \<and> py_in (asc ''F'') gb
              \<longrightarrow> g = asc ''F'') \<and>
           (py_in (asc ''A-'') gb \<and> \<not> py_in (asc ''A+'') gb \<longrightarrow> g = asc ''A-'') \<and>
           (py_in (asc ''A-'') gb \<longrightarrow> g \<noteq> asc ''A'')"
    apply (rule exI [of _ ?g], rule exI [of _ ?gt])
    apply (intro conjI impI)
            apply (rule eq)
           apply (erule none [THEN conjunct1])
          apply (erule none [THEN conjunct2])
         apply (rule first)
        apply (erule some [THEN conjunct1])
       apply (erule some [THEN conjunct2])
      apply (erule mods)
     apply (elim conjE, erule (1) bare)
    apply (elim conjE, erule (1) f)
     apply (elim conjE, erule (1) am)
    apply (erule na)
    done
qed

text \<open>
  A block with \<open>B+\<close> before \<open>A-\<close> and no \<open>A+\<close>: the grade is \<open>A-\<close>, the earlier
  token of the list, not the token that comes first in the block.
\<close>

theorem fallback_scan_priority_witness:
  "first_token (asc ''Grade: B+ solid, a B or an A-'') = Inr (asc ''Grade:'') \<and>
   asc ''Grade:'' \<notin> set valid_grades \<and>
   scan_order ! 1 = asc ''A-'' \<and>
   py_in (asc ''A-'') (asc ''Grade: B+ solid, a B or an A-'') \<and>
   \<not> py_in (asc ''A+'') (asc ''Grade: B+ solid, a B or an A-'') \<and>
   py_in (asc ''B+'') (asc ''Grade: B+ solid, a B or an A-'') \<and>
   grade_of_block (asc ''Grade: B+ solid, a B or an A-'') =
     Inr (asc ''A-'', asc ''Grade: B+ solid, a B or an A-'')"
proof -
  let ?G = "asc ''Grade: B+ solid, a B or an A-''"
  have h1: "first_token ?G = Inr (asc ''Grade:'')" by (simp add: parser_defs)
  have h2: "asc ''Grade:'' \<notin> set valid_grades" by (simp add: valid_grades_def)
  have s1: "scan_order ! 1 = asc ''A-''" by (simp add: scan_order_def)
  have h3: "py_in (asc ''A-'') ?G" by (simp add: parser_defs)
  have h4: "\<not> py_in (asc ''A+'') ?G" by (simp add: parser_defs)
  have h5: "py_in (asc ''B+'') ?G" by (simp add: parser_defs)
  from fallback_scan_priority [OF h1 h2, THEN conjunct2] obtain g gt
    where a: "grade_of_block ?G = Inr (g, gt)"
      and b: "\<forall>i<length scan_order.
              py_in (scan_order ! i) ?G \<and> (\<forall>j<i. \<not> py_in (scan_order ! j) ?G)
              \<longrightarrow> g = scan_order ! i \<and> gt = ?G"
    by (elim exE conjE)
  have l: "1 < length scan_order" by (simp add: scan_order_def)
  have p: "py_in (scan_order ! 1) ?G \<and> (\<forall>j<1. \<not> py_in (scan_order ! j) ?G)"
    using h3 h4 by (simp add: scan_order_def)
  from b [rule_format, OF l p] have "g = asc ''A-'' \<and> gt = ?G" by (simp only: s1)
  with a have c: "grade_of_block ?G = Inr (asc ''A-'', ?G)" by simp
  show ?thesis
    by (rule conjI [OF h1 conjI [OF h2 conjI [OF s1 conjI [OF h3 conjI [OF h4 conjI [OF h5 c]]]]]])
qed

section \<open>The answers of /api/analyze\<close>

lemma asc_empty [simp]: "asc s = [] \<longleftrightarrow> s = []" "[] = asc s \<longleftrightarrow> s = []"
  by (auto simp: asc_def)

lemmas handler_defs = analyze_player_def dget_def dget_default_def

text \<open>
  C3: when neither \<open>SUMMARY:\<close> nor \<open>GRADE:\<close> occurs in the text the model returned
  to a request that carries data with a name, a year and a type, the handler answers with
  status 200: the summary is the whole stripped text, the grade is empty and the grade text
  is \<open>Grade not detected.\<close>
\<close>

theorem no_markers_degraded_result:
  assumes "\<not> py_in SUMMARY text" and "\<not> py_in GRADE text"
    and "data \<noteq> []"
    and "truthy (dget data (asc ''name''))"
    and "truthy (dget data (asc ''year''))"
    and "truthy (dget data (asc ''type''))"
    and "gemini (build_prompt (dget data (asc ''name'')) (dget data (asc ''year''))
                   (dget data (asc ''type'')) data) = Inr text"
  shows "analyze_player gemini (JObject data) =
           Ok \<lparr>summary = py_strip text, grade = [], grade_text = asc ''Grade not detected.''\<rparr> \<and>
         status (analyze_player gemini (JObject data)) = 200"
proof -
  from assms(1) have "\<not> py_in SUMMARY (py_strip text)"
    by (simp add: py_in_strip_SUMMARY)
  then have "parse_response text =
      Inr \<lparr>summary = py_strip text, grade = [], grade_text = asc ''Grade not detected.''\<rparr>"
    by (simp add: parse_response_def)
  with assms(3-7) show ?thesis
    by (simp add: analyze_player_def and_then_def)
qed

text \<open>An answer without markers, for a request whose three required fields are present.\<close>

theorem no_markers_degraded_result_witness:
  "\<not> py_in SUMMARY (asc '' A fine season. '') \<and> \<not> py_in GRADE (asc '' A fine season. '') \<and>
   analyze_player (\<lambda>prompt. Inr (asc '' A fine season. ''))
     (JObject [(asc ''name'', PStr (asc ''Al'')), (asc ''year'', PInt 2023),
               (asc ''type'', PStr (asc ''Pitcher''))]) =
     Ok \<lparr>summary = asc ''A fine season.'', grade = [], grade_text = asc ''Grade not detected.''\<rparr>"
proof -
  let ?T = "asc '' A fine season. ''"
  let ?D = "[(asc ''name'', PStr (asc ''Al'')), (asc ''year'', PInt 2023),
             (asc ''type'', PStr (asc ''Pitcher''))]"
  have h1: "\<not> py_in SUMMARY ?T" by (simp add: parser_defs)
  have h2: "\<not> py_in GRADE ?T" by (simp add: parser_defs)
  have h3: "?D \<noteq> []" by simp
  have h4: "truthy (dget ?D (asc ''name''))" by (simp add: handler_defs)
  have h5: "truthy (dget ?D (asc ''year''))" by (simp add: handler_defs)
  have h6: "truthy (dget ?D (asc ''type''))" by (simp add: handler_defs)
  have h7: "(\<lambda>prompt. Inr ?T) (build_prompt (dget ?D (asc ''name'')) (dget ?D (asc ''year''))
                   (dget ?D (asc ''type'')) ?D) = Inr ?T" by simp
  have s: "py_strip ?T = asc ''A fine season.''" by (simp add: parser_defs)
  from no_markers_degraded_result [of ?T ?D "\<lambda>prompt. Inr ?T", OF h1 h2 h3 h4 h5 h6 h7] h1 h2 s
  show ?thesis by simp
qed

text \<open>
  C4, as stated, fails: the answer \<open>SUMMARY:GRADE: A\<close> holds both markers and the
  summary parsed from it is empty.
\<close>

theorem both_markers_counterexample:
  "py_in SUMMARY (asc ''SUMMARY:GRADE: A'') \<and> py_in GRADE (asc ''SUMMARY:GRADE: A'') \<and>
   parse_response (asc ''SUMMARY:GRADE: A'') =
     Inr \<lparr>summary = [], grade = asc ''A'', grade_text = asc ''A''\<rparr>"
  by (simp add: parser_defs)

text \<open>
  C4, amended: when the answer holds both markers, parsing succeeds; the summary is the
  stripped text between the end of the first \<open>SUMMARY:\<close> and the start of the first
  \<open>GRADE:\<close> (it may be empty), and the grade is one of the 13 valid tokens or empty,
  empty exactly when no valid token occurs anywhere in the grade block.
\<close>

theorem both_markers_parse:
  assumes "py_in SUMMARY text" and "py_in GRADE text"
  shows "\<exists>i j g gt.
           py_find SUMMARY (py_strip text) = Some i \<and>
           py_find GRADE (py_strip text) = Some j \<and>
           parse_response text =
             Inr \<lparr>summary = py_strip (slice (py_strip text) (i + length SUMMARY) j),
                  grade = g, grade_text = gt\<rparr> \<and>
           (g = [] \<or> g \<in> set valid_grades) \<and>
           (g = [] \<longleftrightarrow>
              (\<forall>v \<in> set valid_grades.
                 \<not> py_in v (py_strip (drop (j + length GRADE) (py_strip text)))))"
proof -
  let ?raw = "py_strip text"
  from assms have m: "py_in SUMMARY ?raw" "py_in GRADE ?raw"
    by (simp_all add: py_in_strip_SUMMARY py_in_strip_GRADE)
  then obtain i j where ij: "py_find SUMMARY ?raw = Some i" "py_find GRADE ?raw = Some j"
    and s: "split_sections ?raw =
      Inr (py_strip (slice ?raw (i + length SUMMARY) j), py_strip (drop (j + length GRADE) ?raw))"
    using split_sections_total by blast
  let ?gb = "py_strip (drop (j + length GRADE) ?raw)"
  obtain g gt where g: "grade_of_block ?gb = Inr (g, gt)" "g = [] \<or> g \<in> set valid_grades"
    using grade_of_block_strip by blast
  from m s g(1) have "parse_response text =
      Inr \<lparr>summary = py_strip (slice ?raw (i + length SUMMARY) j), grade = g, grade_text = gt\<rparr>"
    by (simp add: parse_response_def and_then_def)
  with ij g(2) grade_of_block_empty_iff [OF g(1)] show ?thesis by blast
qed

text \<open>An answer with both markers and the grade \<open>C+\<close>.\<close>

theorem both_markers_parse_witness:
  "py_in SUMMARY (asc ''SUMMARY: ok GRADE: C+ fine'') \<and>
   py_in GRADE (asc ''SUMMARY: ok GRADE: C+ fine'') \<and>
   parse_response (asc ''SUMMARY: ok GRADE: C+ fine'') =
     Inr \<lparr>summary = asc ''ok'', grade = asc ''C+'', grade_text = asc ''C+ fine''\<rparr> \<and>
   asc ''C+'' \<in> set valid_grades"
proof -
  let ?T = "asc ''SUMMARY: ok GRADE: C+ fine''"
  have h1: "py_in SUMMARY ?T" by (simp add: parser_defs)
  have h2: "py_in GRADE ?T" by (simp add: parser_defs)
  have p: "parse_response ?T =
     Inr \<lparr>summary = asc ''ok'', grade = asc ''C+'', grade_text = asc ''C+ fine''\<rparr>"
    by (simp add: parser_defs)
  from both_markers_parse [OF h1 h2] obtain g gt s
    where "parse_response ?T = Inr \<lparr>summary = s, grade = g, grade_text = gt\<rparr>"
      and "g = [] \<or> g \<in> set valid_grades"
    by blast
  with p have "asc ''C+'' \<in> set valid_grades" by (auto simp: asc_def)
  with h1 h2 p show ?thesis by blast
qed

text \<open>
  C9: parsing any text succeeds with a grade that is empty or one of the 13 valid tokens,
  and so is the grade of every successful answer of the handler, for any model and any
  request body.
\<close>

theorem grade_valid_or_empty:
  "(\<exists>r. parse_response text = Inr r \<and> (grade r = [] \<or> grade r \<in> set valid_grades)) \<and>
   (analyze_player gemini body = Ok r' \<longrightarrow> grade r' = [] \<or> grade r' \<in> set valid_grades)"
proof
  show "\<exists>r. parse_response text = Inr r \<and> (grade r = [] \<or> grade r \<in> set valid_grades)"
    by (rule parse_response_total)
  show "analyze_player gemini body = Ok r' \<longrightarrow> grade r' = [] \<or> grade r' \<in> set valid_grades"
  proof
    assume ok: "analyze_player gemini body = Ok r'"
    then obtain text' where "parse_response text' = Inr r'"
      by (auto simp: analyze_player_def and_then_def Let_def
               split: json_body.splits if_splits sum.splits)
    with parse_response_total [of text'] show "grade r' = [] \<or> grade r' \<in> set valid_grades"
      by auto
  qed
qed

text \<open>A successful answer of the handler, with grade \<open>C+\<close>.\<close>

theorem grade_valid_or_empty_witness:
  "analyze_player (\<lambda>prompt. Inr (asc ''SUMMARY: ok GRADE: C+ fine''))
     (JObject [(asc ''name'', PStr (asc ''Al'')), (asc ''year'', PInt 2023),
               (asc ''type'', PStr (asc ''Pitcher''))]) =
     Ok \<lparr>summary = asc ''ok'', grade = asc ''C+'', grade_text = asc ''C+ fine''\<rparr> \<and>
   asc ''C+'' \<in> set valid_grades"
proof -
  let ?G = "\<lambda>prompt::pystr. (Inr (asc ''SUMMARY: ok GRADE: C+ fine'') :: pystr result)"
  let ?B = "JObject [(asc ''name'', PStr (asc ''Al'')), (asc ''year'', PInt 2023),
               (asc ''type'', PStr (asc ''Pitcher''))]"
  let ?R = "\<lparr>summary = asc ''ok'', grade = asc ''C+'', grade_text = asc ''C+ fine''\<rparr>"
  have a: "analyze_player ?G ?B = Ok ?R"
    by (simp add: handler_defs parser_defs)
  from grade_valid_or_empty [of _ ?G ?B ?R] a
  have "grade ?R = [] \<or> grade ?R \<in> set valid_grades" by blast
  then have "asc ''C+'' \<in> set valid_grades" by (simp add: asc_def)
  with a show ?thesis by blast
qed

section \<open>The roster of /api/players\<close>

lemma sort_desc_sorted: "sorted_wrt (\<ge>) (map key (sort_desc key xs))"
proof -
  have "sorted (map key (sort_key key (rev xs)))" by (rule sorted_sort_key)
  then have "sorted_wrt (\<lambda>x y. y \<ge> x) (map key (sort_key key (rev xs)))" by simp
  then show ?thesis
    by (simp add: sort_desc_def rev_map [symmetric] sorted_wrt_rev)
qed

lemma sort_desc_set: "set (sort_desc key xs) = set xs" "length (sort_desc key xs) = length xs"
  by (simp_all add: sort_desc_def)

lemma sort_desc_head:
  assumes "sort_desc key xs = y # ys" and "e \<in> set ys"
  shows "key e \<le> key y"
proof -
  from sort_desc_sorted [of key xs] assms(1)
  have "sorted_wrt (\<ge>) (key y # map key ys)" by simp
  with assms(2) show ?thesis by auto
qed

lemma get_players_Ok:
  assumes "get_players B batting_stats pitching_stats team year = Ok r"
  shows "\<exists>bs ps. r_batters r = sort_desc b_games bs \<and> r_pitchers r = sort_desc p_games ps"
proof -
  from assms obtain t y where "team_roster B batting_stats pitching_stats t y = Inr r"
    by (auto simp: get_players_def split: option.splits if_splits sum.splits)
  then show ?thesis
    by (auto simp: team_roster_def and_then_def split: sum.splits)
qed

text \<open>
  C5: in every successful answer of /api/players the batters and the pitchers are each
  in descending order of \<open>games\<close>, so the first entry of each list has at least as
  many games as every later one.
\<close>

theorem roster_sorted_by_games:
  assumes "get_players B batting_stats pitching_stats team year = Ok r"
  shows "sorted_wrt (\<ge>) (map b_games (r_batters r)) \<and>
         sorted_wrt (\<ge>) (map p_games (r_pitchers r)) \<and>
         (\<forall>x xs. r_batters r = x # xs \<longrightarrow> (\<forall>e \<in> set xs. b_games e \<le> b_games x)) \<and>
         (\<forall>x xs. r_pitchers r = x # xs \<longrightarrow> (\<forall>e \<in> set xs. p_games e \<le> p_games x))"
proof -
  from get_players_Ok [OF assms] obtain bs ps
    where "r_batters r = sort_desc b_games bs" "r_pitchers r = sort_desc p_games ps"
    by blast
  then show ?thesis
    by (auto simp: sort_desc_sorted dest: sort_desc_head)
qed

lemmas sample_defs = sample_builtins_def sample_batting_def sample_pitching_def

text \<open>The roster of the sample tables for \<open>NYY\<close>, 2023.\<close>

theorem roster_sorted_by_games_witness:
  "get_players sample_builtins (\<lambda>y. Inr sample_batting) (\<lambda>y. Inr sample_pitching)
     (Some (asc ''NYY'')) (Some 2023) =
     Ok \<lparr>r_team = asc ''New York Yankees'', r_year = 2023,
         r_batters =
           [\<lparr>b_name = PStr (asc ''Gleyber Torres''), b_type = asc ''Batter'', b_games = 158,
             b_avg = POther True (asc ''0.273''), b_hr = 25, b_rbi = 68,
             b_ops = POther True (asc ''0.8'')\<rparr>,
            \<lparr>b_name = PStr (asc ''Aaron Judge''), b_type = asc ''Batter'', b_games = 106,
             b_avg = POther True (asc ''0.267''), b_hr = 37, b_rbi = 75,
             b_ops = POther True (asc ''1.019'')\<rparr>],
         r_pitchers =
           [\<lparr>p_name = PStr (asc ''Clay Holmes''), p_type = asc ''Pitcher'', p_games = 66,
             p_era = POther True (asc ''2.86''), p_wins = 4, p_strikeouts = 71,
             p_whip = POther True (asc ''1.17'')\<rparr>,
            \<lparr>p_name = PStr (asc ''Gerrit Cole''), p_type = asc ''Pitcher'', p_games = 33,
             p_era = POther True (asc ''2.63''), p_wins = 15, p_strikeouts = 222,
             p_whip = POther True (asc ''0.98'')\<rparr>]\<rparr> \<and>
   sorted_wrt (\<ge>) [158, 106 :: int] \<and> sorted_wrt (\<ge>) [66, 33 :: int]"
proof -
  let ?q = "get_players sample_builtins (\<lambda>y. Inr sample_batting) (\<lambda>y. Inr sample_pitching)
     (Some (asc ''NYY'')) (Some 2023)"
  let ?R = "\<lparr>r_team = asc ''New York Yankees'', r_year = 2023,
         r_batters =
           [\<lparr>b_name = PStr (asc ''Gleyber Torres''), b_type = asc ''Batter'', b_games = 158,
             b_avg = POther True (asc ''0.273''), b_hr = 25, b_rbi = 68,
             b_ops = POther True (asc ''0.8'')\<rparr>,
            \<lparr>b_name = PStr (asc ''Aaron Judge''), b_type = asc ''Batter'', b_games = 106,
             b_avg = POther True (asc ''0.267''), b_hr = 37, b_rbi = 75,
             b_ops = POther True (asc ''1.019'')\<rparr>],
         r_pitchers =
           [\<lparr>p_name = PStr (asc ''Clay Holmes''), p_type = asc ''Pitcher'', p_games = 66,
             p_era = POther True (asc ''2.86''), p_wins = 4, p_strikeouts = 71,
             p_whip = POther True (asc ''1.17'')\<rparr>,
            \<lparr>p_name = PStr (asc ''Gerrit Cole''), p_type = asc ''Pitcher'', p_games = 33,
             p_era = POther True (asc ''2.63''), p_wins = 15, p_strikeouts = 222,
             p_whip = POther True (asc ''0.98'')\<rparr>]\<rparr>"
  have "team_roster sample_builtins (\<lambda>y. Inr sample_batting) (\<lambda>y. Inr sample_pitching)
          (asc ''NYY'') 2023 = Inr ?R"
    apply (simp add: team_roster_def and_then_def sample_defs select_rows_def)
    apply (simp add: batter_entry_of_def pitcher_entry_of_def row_item_def dget_default_def
                     and_then_def)
    apply (simp add: sort_desc_def MLB_TEAMS_def)
    done
  then have q: "?q = Ok ?R" by (simp add: get_players_def)
  from roster_sorted_by_games [OF q] q show ?thesis by simp
qed

section \<open>Looking a player up\<close>

lemma select_rows_none:
  assumes "col \<in> set (columns df)"
    and "\<forall>row \<in> set (table_rows df). map_of row col \<noteq> Some (PStr v)"
  shows "select_rows df col v = Inr []"
  using assms by (simp add: select_rows_def filter_empty_conv)

lemma lookup_player_none:
  assumes "season_stats year = Inr df"
    and "asc ''Name'' \<in> set (columns df)"
    and "\<forall>row \<in> set (table_rows df). map_of row (asc ''Name'') \<noteq> Some (PStr player_name)"
  shows "lookup_player season_stats stats_of player_name year = Inr None"
  using assms(1) select_rows_none [OF assms(2,3)]
  by (simp add: lookup_player_def and_then_def)

lemma lookup_player_raises:
  assumes "season_stats year = Inl e"
  shows "lookup_player season_stats stats_of player_name year = Inl e"
  using assms by (simp add: lookup_player_def and_then_def)

text \<open>
  C6: for a request to /api/player-stats with a name and a year, when the season table of
  the requested role was retrieved and no row of it has exactly the requested name in its
  \<open>Name\<close> column, the answer is 404 with the error \<open>Player not found\<close>; when the
  retrieval raises, the answer is 500 with the message of the exception.
\<close>

theorem unknown_player_not_found:
  assumes "player_name \<noteq> []" and "year \<noteq> 0"
  shows "((if ptype = None \<or> ptype = Some (asc ''Batter'') then batting_stats else pitching_stats)
            year = Inr df \<and>
          asc ''Name'' \<in> set (columns df) \<and>
          (\<forall>row \<in> set (table_rows df). map_of row (asc ''Name'') \<noteq> Some (PStr player_name))
          \<longrightarrow> get_player_stats B batting_stats pitching_stats (Some player_name) (Some year) ptype
                = Error 404 (asc ''Player not found'')) \<and>
         ((if ptype = None \<or> ptype = Some (asc ''Batter'') then batting_stats else pitching_stats)
            year = Inl e
          \<longrightarrow> get_player_stats B batting_stats pitching_stats (Some player_name) (Some year) ptype
                = Error 500 e)"
proof (cases "ptype = None \<or> ptype = Some (asc ''Batter'')")
  case True
  then have b: "(case ptype of None \<Rightarrow> asc ''Batter'' | Some t \<Rightarrow> t) = asc ''Batter''"
    by auto
  show ?thesis
    using assms True
    by (auto simp: get_player_stats_def b lookup_player_none lookup_player_raises)
next
  case False
  then have b: "(case ptype of None \<Rightarrow> asc ''Batter'' | Some t \<Rightarrow> t) \<noteq> asc ''Batter''"
    by (auto split: option.splits)
  show ?thesis
    using assms False
    by (auto simp: get_player_stats_def b lookup_player_none lookup_player_raises)
qed

text \<open>
  The sample table has \<open>Aaron Judge\<close>; the name \<open>aaron judge\<close> is not found in it.
\<close>

theorem unknown_player_not_found_witness:
  "get_player_stats sample_builtins (\<lambda>y. Inr sample_batting) (\<lambda>y. Inr sample_pitching)
     (Some (asc ''aaron judge'')) (Some 2023) (Some (asc ''Batter'')) =
     Error 404 (asc ''Player not found'') \<and>
   get_player_stats sample_builtins (\<lambda>y. Inl (asc ''HTTP Error 503'')) (\<lambda>y. Inr sample_pitching)
     (Some (asc ''aaron judge'')) (Some 2023) (Some (asc ''Batter'')) =
     Error 500 (asc ''HTTP Error 503'')"
proof -
  have n: "asc ''aaron judge'' \<noteq> []" by simp
  have y: "(2023::int) \<noteq> 0" by simp
  have c: "asc ''Name'' \<in> set (columns sample_batting)"
    by (simp add: sample_batting_def)
  have r: "\<forall>row \<in> set (table_rows sample_batting).
             map_of row (asc ''Name'') \<noteq> Some (PStr (asc ''aaron judge''))"
    by (simp add: sample_batting_def)
  from unknown_player_not_found [OF n y, of "Some (asc ''Batter'')" "\<lambda>y. Inr sample_batting"
      "\<lambda>y. Inr sample_pitching" sample_batting sample_builtins] c r
  have a: "get_player_stats sample_builtins (\<lambda>y. Inr sample_batting) (\<lambda>y. Inr sample_pitching)
     (Some (asc ''aaron judge'')) (Some 2023) (Some (asc ''Batter'')) =
     Error 404 (asc ''Player not found'')" by simp
  from unknown_player_not_found [OF n y, of "Some (asc ''Batter'')" "\<lambda>y. Inl (asc ''HTTP Error 503'')"
      "\<lambda>y. Inr sample_pitching" _ sample_builtins "asc ''HTTP Error 503''"]
  have b: "get_player_stats sample_builtins (\<lambda>y. Inl (asc ''HTTP Error 503'')) (\<lambda>y. Inr sample_pitching)
     (Some (asc ''aaron judge'')) (Some 2023) (Some (asc ''Batter'')) =
     Error 500 (asc ''HTTP Error 503'')" by simp
  from a b show ?thesis by blast
qed

section \<open>From the answer of /api/player-stats to the stat lines\<close>

lemma collect_keys: "collect es = Inr d \<Longrightarrow> map fst d = map fst es"
proof (induction es arbitrary: d)
  case Nil
  then show ?case by simp
next
  case (Cons a es)
  obtain k r where a: "a = (k, r)" by (cases a)
  from Cons.prems a obtain v d' where "r = Inr v" "collect es = Inr d'" "d = (k, v) # d'"
    by (auto simp: and_then_def split: sum.splits)
  with Cons.IH a show ?case by simp
qed

lemma batter_stats_keys:
  assumes "batter_stats B player_name year row = Inr payload"
  shows "map fst payload = map asc
           [''name'', ''year'', ''type'', ''team'', ''games'', ''at_bats'', ''hits'', ''doubles'',
            ''triples'', ''home_runs'', ''rbi'', ''stolen_bases'', ''walks'', ''strikeouts'',
            ''avg'', ''obp'', ''slg'', ''ops'', ''war'', ''wrc_plus'']"
  using collect_keys [OF assms [unfolded batter_stats_def]] by simp

lemma get_player_stats_batter:
  assumes "get_player_stats B batting_stats pitching_stats name year ptype = Ok payload"
    and "ptype = None \<or> ptype = Some (asc ''Batter'')"
  shows "\<exists>n y row. batter_stats B n y row = Inr payload"
proof -
  from assms(2) have b: "(case ptype of None \<Rightarrow> asc ''Batter'' | Some t \<Rightarrow> t) = asc ''Batter''"
    by auto
  from assms(1) obtain n y
    where "lookup_player batting_stats (batter_stats B n y) n y = Inr (Some payload)"
    by (auto simp: get_player_stats_def b split: option.splits if_splits sum.splits)
  then show ?thesis
    by (auto simp: lookup_player_def and_then_def split: sum.splits list.splits)
qed

lemma stat_line_value:
  "map_of d (asc key) = Some v \<Longrightarrow> stat_line label d key = asc label @ asc '': '' @ py_str v"
  by (simp add: stat_line_def dget_def dget_default_def)

lemma key_present: "k \<in> set (map fst d) \<Longrightarrow> \<exists>v. map_of d k = Some v"
  by (cases "map_of d k") (auto simp: map_of_eq_None_iff)

lemmas eval_defs = dget_def dget_default_def stat_line_def batter_stat_lines_def
  pitcher_stat_lines_def digits_of.simps


lemma sample_payload_answer:
  "get_player_stats sample_builtins (\<lambda>y. Inr sample_batting) (\<lambda>y. Inr sample_pitching)
     (Some (asc ''Aaron Judge'')) (Some 2023) (Some (asc ''Batter'')) = Ok sample_payload"
proof -
  have r: "batter_stats sample_builtins (asc ''Aaron Judge'') 2023 (hd (table_rows sample_batting))
             = Inr sample_payload"
    apply (simp add: batter_stats_def sample_batting_def)
    apply (simp add: int_cell_def round_cell_def in_row_def dget_default_def sample_builtins_def
                     and_then_def)
    apply (simp add: sample_payload_def eval_defs asc_def)
    done
  have s: "select_rows sample_batting (asc ''Name'') (asc ''Aaron Judge'')
             = Inr [hd (table_rows sample_batting)]"
    by (simp add: select_rows_def sample_batting_def)
  show ?thesis
    by (simp add: get_player_stats_def lookup_player_def and_then_def s r)
qed

lemma sample_stat_lines:
  "batter_stat_lines sample_payload = map asc
     [''Games: 106'', ''At-Bats: 0'', ''Hits: 0'', ''Batting Average (AVG): 0.267'',
      ''On-Base Percentage (OBP): 0.0'', ''Slugging Percentage (SLG): 0.0'', ''OPS: 1.019'',
      ''Home Runs (HR): 37'', ''RBI: 75'', ''Stolen Bases (SB): 0'', ''Walks (BB): 0'',
      ''Strikeouts (SO): 0'', ''Doubles (2B): 0'', ''Triples (3B): 0'', ''WAR: 0.0'',
      ''wRC+: N/A'']"
  by (simp add: sample_payload_def eval_defs asc_def)

text \<open>
  C7, as stated, fails: the answer for the batter of the sample table has the field
  \<open>team\<close> with value \<open>NYY\<close>, and none of the sixteen stat lines built from that answer
  mentions it.
\<close>

theorem stat_fields_counterexample:
  "get_player_stats sample_builtins (\<lambda>y. Inr sample_batting) (\<lambda>y. Inr sample_pitching)
     (Some (asc ''Aaron Judge'')) (Some 2023) (Some (asc ''Batter'')) = Ok sample_payload \<and>
   map_of sample_payload (asc ''team'') = Some (PStr (asc ''NYY'')) \<and>
   batter_stat_lines sample_payload = map asc
     [''Games: 106'', ''At-Bats: 0'', ''Hits: 0'', ''Batting Average (AVG): 0.267'',
      ''On-Base Percentage (OBP): 0.0'', ''Slugging Percentage (SLG): 0.0'', ''OPS: 1.019'',
      ''Home Runs (HR): 37'', ''RBI: 75'', ''Stolen Bases (SB): 0'', ''Walks (BB): 0'',
      ''Strikeouts (SO): 0'', ''Doubles (2B): 0'', ''Triples (3B): 0'', ''WAR: 0.0'',
      ''wRC+: N/A''] \<and>
   filter (py_in (asc ''NYY'')) (batter_stat_lines sample_payload) = []"
proof -
  have b: "map_of sample_payload (asc ''team'') = Some (PStr (asc ''NYY''))"
    by (simp add: sample_payload_def)
  have d: "filter (py_in (asc ''NYY'')) (batter_stat_lines sample_payload) = []"
    unfolding sample_stat_lines by (simp add: py_in_def asc_def)
  show ?thesis
    by (rule conjI [OF sample_payload_answer conjI [OF b conjI [OF sample_stat_lines d]]])
qed


lemma fields_covered:
  assumes "\<forall>(key, label) \<in> set fs. asc key \<in> set (map fst d)"
    and "\<forall>(key, label) \<in> set fs. stat_line label d key \<in> set ls"
  shows "\<forall>(key, label) \<in> set fs.
           \<exists>v. map_of d (asc key) = Some v \<and> asc label @ asc '': '' @ py_str v \<in> set ls"
proof clarify
  fix key label
  assume m: "(key, label) \<in> set fs"
  from assms(1) m have "asc key \<in> set (map fst d)" by auto
  then have "\<exists>v. map_of d (asc key) = Some v"
    by (rule key_present)
  then obtain v where v: "map_of d (asc key) = Some v" ..
  from assms(2) m have "stat_line label d key \<in> set ls" by auto
  then have "asc label @ asc '': '' @ py_str v \<in> set ls"
    by (simp only: stat_line_value [OF v])
  with v show "\<exists>v. map_of d (asc key) = Some v \<and> asc label @ asc '': '' @ py_str v \<in> set ls"
    by (intro exI conjI)
qed

section \<open>The branch on the type\<close>

lemma role_parts_pitcher:
  "t \<noteq> PStr (asc ''Batter'') \<Longrightarrow>
   role_parts t data = (pitcher_stat_lines data, asc ''pitcher'', pitcher_benchmarks)"
  by (simp add: role_parts_def)

lemma build_prompt_pitcher:
  "t \<noteq> PStr (asc ''Batter'') \<Longrightarrow>
   build_prompt name year t data =
     prompt_text (py_str year) (py_str name) (asc ''pitcher'') pitcher_benchmarks
       (join_lines (pitcher_stat_lines data))"
  by (simp add: build_prompt_def role_parts_pitcher)

lemma sublist_skip: "sublist x ys \<Longrightarrow> sublist x (p @ ys)"
  by (metis append.assoc sublist_def)

lemma prompt_has_benchmarks: "py_in gb (prompt_text y n rc gb sb)"
  unfolding py_in_sublist prompt_text_def
  by (rule sublist_skip, rule sublist_skip, rule sublist_skip, rule sublist_skip,
      rule sublist_skip, rule sublist_skip, rule sublist_skip, rule sublist_append_rightI)

lemma prompt_has_stats: "py_in sb (prompt_text y n rc gb sb)"
  unfolding py_in_sublist prompt_text_def
  by (rule sublist_skip, rule sublist_skip, rule sublist_skip, rule sublist_skip,
      rule sublist_skip, rule sublist_skip, rule sublist_skip, rule sublist_skip,
      rule sublist_skip, rule sublist_skip, rule sublist_skip, rule sublist_append_rightI)

lemma analyze_player_valid:
  assumes "data \<noteq> []" and "truthy (dget data (asc ''name''))"
    and "truthy (dget data (asc ''year''))" and "truthy (dget data (asc ''type''))"
  shows "analyze_player gemini (JObject data) =
           (case and_then (gemini (build_prompt (dget data (asc ''name'')) (dget data (asc ''year''))
                                     (dget data (asc ''type'')) data)) parse_response of
              Inl e \<Rightarrow> Error 500 e
            | Inr r \<Rightarrow> Ok r)"
  using assms by (simp add: analyze_player_def)

lemma pitcher_benchmarks_prefix:
  "prefix (asc ''Use these grade benchmarks for a pitcher'') pitcher_benchmarks"
  by (simp add: pitcher_benchmarks_def asc_def)

lemma benchmarks_differ: "pitcher_benchmarks \<noteq> batter_benchmarks"
  by (simp add: pitcher_benchmarks_def batter_benchmarks_def)

lemma stat_lines_differ: "pitcher_stat_lines data \<noteq> batter_stat_lines data"
proof
  assume "pitcher_stat_lines data = batter_stat_lines data"
  then have "length (pitcher_stat_lines data) = length (batter_stat_lines data)" by simp
  then show False by (simp add: pitcher_stat_lines_def batter_stat_lines_def)
qed

lemma collect_Inr_Cons:
  "collect ((k, Inr v) # es) = Inr d \<longleftrightarrow> (\<exists>d'. collect es = Inr d' \<and> d = (k, v) # d')"
  by (auto simp: and_then_def split: sum.splits)

lemma pitcher_stats_type:
  assumes "pitcher_stats B player_name year row = Inr stats"
  shows "map_of stats (asc ''type'') = Some (PStr (asc ''Pitcher''))"
proof -
  from assms obtain d where
    "stats = (asc ''name'', PStr player_name) # (asc ''year'', PInt year) #
             (asc ''type'', PStr (asc ''Pitcher'')) # d"
    unfolding pitcher_stats_def by (simp only: collect_Inr_Cons) (elim exE conjE, simp)
  then show ?thesis by simp
qed

lemma get_player_stats_other:
  assumes "player_name \<noteq> []" and "year \<noteq> 0" and "t \<noteq> asc ''Batter''"
  shows "get_player_stats B batting_stats pitching_stats (Some player_name) (Some year) (Some t) =
           (case lookup_player pitching_stats (pitcher_stats B player_name year) player_name year of
              Inl e \<Rightarrow> Error 500 e
            | Inr None \<Rightarrow> Error 404 (asc ''Player not found'')
            | Inr (Some stats) \<Rightarrow> Ok stats)"
  using assms by (simp add: get_player_stats_def)

lemma lookup_player_pitcher_type:
  assumes "lookup_player season_stats (pitcher_stats B n y) n y = Inr (Some stats)"
  shows "map_of stats (asc ''type'') = Some (PStr (asc ''Pitcher''))"
proof -
  from assms obtain row where "pitcher_stats B n y row = Inr stats"
    by (auto simp: lookup_player_def and_then_def split: sum.splits list.splits)
  then show ?thesis by (rule pitcher_stats_type)
qed

lemma sample_pitcher_answer:
  "lookup_player (\<lambda>y. Inr sample_pitching)
     (pitcher_stats sample_builtins (asc ''Gerrit Cole'') 2023) (asc ''Gerrit Cole'') 2023 =
   Inr (Some sample_pitcher_payload)"
proof -
  have r: "pitcher_stats sample_builtins (asc ''Gerrit Cole'') 2023 (hd (table_rows sample_pitching))
             = Inr sample_pitcher_payload"
    apply (simp add: pitcher_stats_def sample_pitching_def)
    apply (simp add: int_cell_def round_cell_def in_row_def dget_default_def sample_builtins_def
                     and_then_def)
    apply (simp add: sample_pitcher_payload_def eval_defs asc_def)
    done
  have s: "select_rows sample_pitching (asc ''Name'') (asc ''Gerrit Cole'')
             = Inr [hd (table_rows sample_pitching)]"
    by (simp add: select_rows_def sample_pitching_def)
  show ?thesis
    by (simp add: lookup_player_def and_then_def s r)
qed

text \<open>
  C10, as stated, fails: the empty string is a type other than \<open>Batter\<close>, and
  /api/analyze rejects a request whose type is empty with status 400, before any branch.
\<close>

theorem type_branch_counterexample:
  "PStr [] \<noteq> PStr (asc ''Batter'') \<and>
   analyze_player pitcher_only_model
     (JObject [(asc ''name'', PStr (asc ''Gerrit Cole'')), (asc ''year'', PInt 2023),
               (asc ''type'', PStr [])]) =
     Error 400 (asc ''name, year, and type are required'')"
  by (simp add: handler_defs)

text \<open>
  C10, amended. For /api/player-stats with a name that is not empty and a year that is
  not zero, every type given other than exactly \<open>Batter\<close> (the empty string too) takes
  the pitcher branch: only the pitching table is looked up, and an answer found has the
  type \<open>Pitcher\<close>. For /api/analyze with data, a name, a year and a type that are present
  and truthy (so the type is not empty), every type other than exactly \<open>Batter\<close> selects
  the stat lines and the benchmark table of the pitchers, and the prompt sent is built from
  them. The type \<open>Batter\<close> selects the batter branch in both. A request to
  /api/analyze whose type is missing or falsy, the empty string among them, is answered
  400.
\<close>

theorem type_branch:
  "(player_name \<noteq> [] \<and> year \<noteq> 0 \<and> t \<noteq> asc ''Batter'' \<longrightarrow>
      get_player_stats B batting_stats pitching_stats (Some player_name) (Some year) (Some t) =
        (case lookup_player pitching_stats (pitcher_stats B player_name year) player_name year of
           Inl e \<Rightarrow> Error 500 e
         | Inr None \<Rightarrow> Error 404 (asc ''Player not found'')
         | Inr (Some stats) \<Rightarrow> Ok stats) \<and>
      (\<forall>stats. get_player_stats B batting_stats pitching_stats (Some player_name) (Some year)
                 (Some t) = Ok stats \<longrightarrow>
               map_of stats (asc ''type'') = Some (PStr (asc ''Pitcher'')))) \<and>
   (data \<noteq> [] \<and> truthy (dget data (asc ''name'')) \<and> truthy (dget data (asc ''year'')) \<and>
    truthy (dget data (asc ''type'')) \<and> dget data (asc ''type'') \<noteq> PStr (asc ''Batter'') \<longrightarrow>
      role_parts (dget data (asc ''type'')) data =
        (pitcher_stat_lines data, asc ''pitcher'', pitcher_benchmarks) \<and>
      analyze_player gemini (JObject data) =
        (case and_then
                (gemini (prompt_text (py_str (dget data (asc ''year'')))
                           (py_str (dget data (asc ''name''))) (asc ''pitcher'')
                           pitcher_benchmarks (join_lines (pitcher_stat_lines data))))
                parse_response of
           Inl e \<Rightarrow> Error 500 e
         | Inr r \<Rightarrow> Ok r)) \<and>
   (player_name \<noteq> [] \<and> year \<noteq> 0 \<longrightarrow>
      get_player_stats B batting_stats pitching_stats (Some player_name) (Some year)
        (Some (asc ''Batter'')) =
        (case lookup_player batting_stats (batter_stats B player_name year) player_name year of
           Inl e \<Rightarrow> Error 500 e
         | Inr None \<Rightarrow> Error 404 (asc ''Player not found'')
         | Inr (Some stats) \<Rightarrow> Ok stats)) \<and>
   role_parts (PStr (asc ''Batter'')) data =
     (batter_stat_lines data, asc ''position player (batter)'', batter_benchmarks) \<and>
   (data \<noteq> [] \<and> \<not> truthy (dget data (asc ''type'')) \<longrightarrow>
      analyze_player gemini (JObject data) =
        Error 400 (asc ''name, year, and type are required''))"
proof (intro conjI impI allI)
  assume a: "player_name \<noteq> [] \<and> year \<noteq> 0 \<and> t \<noteq> asc ''Batter''"
  then show g: "get_player_stats B batting_stats pitching_stats (Some player_name) (Some year) (Some t) =
        (case lookup_player pitching_stats (pitcher_stats B player_name year) player_name year of
           Inl e \<Rightarrow> Error 500 e
         | Inr None \<Rightarrow> Error 404 (asc ''Player not found'')
         | Inr (Some stats) \<Rightarrow> Ok stats)"
    by (simp add: get_player_stats_other)
  fix stats
  assume "get_player_stats B batting_stats pitching_stats (Some player_name) (Some year)
                 (Some t) = Ok stats"
  with g have "lookup_player pitching_stats (pitcher_stats B player_name year) player_name year
                 = Inr (Some stats)"
    by (simp split: sum.splits option.splits)
  then show "map_of stats (asc ''type'') = Some (PStr (asc ''Pitcher''))"
    by (rule lookup_player_pitcher_type)
next
  assume a: "data \<noteq> [] \<and> truthy (dget data (asc ''name'')) \<and> truthy (dget data (asc ''year'')) \<and>
    truthy (dget data (asc ''type'')) \<and> dget data (asc ''type'') \<noteq> PStr (asc ''Batter'')"
  then show "role_parts (dget data (asc ''type'')) data =
        (pitcher_stat_lines data, asc ''pitcher'', pitcher_benchmarks)"
    by (simp add: role_parts_pitcher)
  from a have v: "data \<noteq> []" "truthy (dget data (asc ''name''))" "truthy (dget data (asc ''year''))"
    "truthy (dget data (asc ''type''))" and nb: "dget data (asc ''type'') \<noteq> PStr (asc ''Batter'')"
    by simp_all
  show "analyze_player gemini (JObject data) =
        (case and_then
                (gemini (prompt_text (py_str (dget data (asc ''year'')))
                           (py_str (dget data (asc ''name''))) (asc ''pitcher'')
                           pitcher_benchmarks (join_lines (pitcher_stat_lines data))))
                parse_response of
           Inl e \<Rightarrow> Error 500 e
         | Inr r \<Rightarrow> Ok r)"
    by (simp only: analyze_player_valid [OF v] build_prompt_pitcher [OF nb])
next
  assume "player_name \<noteq> [] \<and> year \<noteq> 0"
  then show "get_player_stats B batting_stats pitching_stats (Some player_name) (Some year)
        (Some (asc ''Batter'')) =
        (case lookup_player batting_stats (batter_stats B player_name year) player_name year of
           Inl e \<Rightarrow> Error 500 e
         | Inr None \<Rightarrow> Error 404 (asc ''Player not found'')
         | Inr (Some stats) \<Rightarrow> Ok stats)"
    by (simp add: get_player_stats_def)
next
  show "role_parts (PStr (asc ''Batter'')) data =
     (batter_stat_lines data, asc ''position player (batter)'', batter_benchmarks)"
    by (simp add: role_parts_def)
next
  assume "data \<noteq> [] \<and> \<not> truthy (dget data (asc ''type''))"
  then show "analyze_player gemini (JObject data) =
        Error 400 (asc ''name, year, and type are required'')"
    by (simp add: analyze_player_def)
qed

text \<open>
  The type \<open>pitcher\<close> in lower case: the pitcher of the sample table is found although
  no batting table can be retrieved, and the prompt of /api/analyze has the pitcher table.
\<close>

theorem type_branch_witness:
  "get_player_stats sample_builtins (\<lambda>y. Inl (asc ''no batting table'')) (\<lambda>y. Inr sample_pitching)
     (Some (asc ''Gerrit Cole'')) (Some 2023) (Some (asc ''pitcher'')) = Ok sample_pitcher_payload \<and>
   map_of sample_pitcher_payload (asc ''type'') = Some (PStr (asc ''Pitcher'')) \<and>
   analyze_player pitcher_only_model
     (JObject [(asc ''name'', PStr (asc ''Gerrit Cole'')), (asc ''year'', PInt 2023),
               (asc ''type'', PStr (asc ''pitcher''))]) =
     Ok \<lparr>summary = asc ''ok'', grade = asc ''A'', grade_text = asc ''A''\<rparr>"
proof -
  let ?D = "[(asc ''name'', PStr (asc ''Gerrit Cole'')), (asc ''year'', PInt 2023),
             (asc ''type'', PStr (asc ''pitcher''))]"
  have n: "asc ''Gerrit Cole'' \<noteq> []" by simp
  have y: "(2023::int) \<noteq> 0" by simp
  have t: "asc ''pitcher'' \<noteq> asc ''Batter''" by simp
  note p1 = type_branch [where player_name = "asc ''Gerrit Cole''" and year = 2023
      and t = "asc ''pitcher''" and B = sample_builtins
      and batting_stats = "\<lambda>y. Inl (asc ''no batting table'')"
      and pitching_stats = "\<lambda>y. Inr sample_pitching",
      THEN conjunct1, THEN mp, OF conjI [OF n conjI [OF y t]]]
  have a: "get_player_stats sample_builtins (\<lambda>y. Inl (asc ''no batting table''))
      (\<lambda>y. Inr sample_pitching) (Some (asc ''Gerrit Cole'')) (Some 2023) (Some (asc ''pitcher''))
      = Ok sample_pitcher_payload"
    by (simp only: p1 [THEN conjunct1] sample_pitcher_answer sum.case option.case)
  have b: "map_of sample_pitcher_payload (asc ''type'') = Some (PStr (asc ''Pitcher''))"
    by (rule p1 [THEN conjunct2, rule_format, OF a])
  have h1: "?D \<noteq> []" by simp
  have h2: "truthy (dget ?D (asc ''name''))" by (simp add: handler_defs)
  have h3: "truthy (dget ?D (asc ''year''))" by (simp add: handler_defs)
  have h4: "truthy (dget ?D (asc ''type''))" by (simp add: handler_defs)
  have h5: "dget ?D (asc ''type'') \<noteq> PStr (asc ''Batter'')" by (simp add: handler_defs)
  note p2 = type_branch [where data = ?D and gemini = pitcher_only_model,
      THEN conjunct2, THEN conjunct1, THEN mp,
      OF conjI [OF h1 conjI [OF h2 conjI [OF h3 conjI [OF h4 h5]]]], THEN conjunct2]
  have r: "parse_response (asc ''SUMMARY: ok GRADE: A'') =
             Inr \<lparr>summary = asc ''ok'', grade = asc ''A'', grade_text = asc ''A''\<rparr>"
    by (simp add: parser_defs)
  have c: "analyze_player pitcher_only_model (JObject ?D) =
          Ok \<lparr>summary = asc ''ok'', grade = asc ''A'', grade_text = asc ''A''\<rparr>"
    by (simp only: p2 pitcher_only_model_def prompt_has_benchmarks if_True r and_then_def sum.case)
  show ?thesis
    by (rule conjI [OF a conjI [OF b c]])
qed

section \<open>The stat lines in the prompt\<close>

lemma py_in_trans: "py_in a b \<Longrightarrow> py_in b c \<Longrightarrow> py_in a c"
  unfolding py_in_sublist sublist_def by (metis append.assoc)

lemma join_lines_has: "l \<in> set ls \<Longrightarrow> py_in l (join_lines ls)"
proof (induction ls rule: join_lines.induct)
  case 1
  then show ?case by simp
next
  case (2 l')
  then show ?case by (simp add: py_in_sublist)
next
  case (3 l' v va)
  from "3.prems" have "l = l' \<or> l \<in> set (v # va)" by auto
  then show ?case
  proof
    assume "l = l'"
    then show ?thesis by (simp add: py_in_sublist)
  next
    assume "l \<in> set (v # va)"
    then have "sublist l (join_lines (v # va))"
      using "3.IH" by (simp add: py_in_sublist)
    then have "sublist l (l' @ [10] @ join_lines (v # va))"
      by (intro sublist_skip)
    then show ?thesis by (simp add: py_in_sublist)
  qed
qed

lemma line_in_prompt:
  assumes "l \<in> set ls"
  shows "py_in l (prompt_text y n rc gb (join_lines ls))"
  by (rule py_in_trans [OF join_lines_has [OF assms] prompt_has_stats])

lemma pitcher_block:
  "join_lines (pitcher_stat_lines data) =
     asc ''Games: '' @ py_str (dget data (asc ''games'')) @ [10] @
     asc ''Games Started (GS): '' @ py_str (dget data (asc ''games_started'')) @ [10] @
     asc ''Wins: '' @ py_str (dget data (asc ''wins'')) @ [10] @
     asc ''Losses: '' @ py_str (dget data (asc ''losses'')) @ [10] @
     asc ''Saves: '' @ py_str (dget data (asc ''saves'')) @ [10] @
     asc ''Innings Pitched (IP): '' @ py_str (dget data (asc ''innings_pitched'')) @ [10] @
     asc ''ERA: '' @ py_str (dget data (asc ''era'')) @ [10] @
     asc ''WHIP: '' @ py_str (dget data (asc ''whip'')) @ [10] @
     asc ''Strikeouts (K): '' @ py_str (dget data (asc ''strikeouts'')) @ [10] @
     asc ''Walks (BB): '' @ py_str (dget data (asc ''walks'')) @ [10] @
     asc ''K/9: '' @ py_str (dget data (asc ''k9'')) @ [10] @
     asc ''BB/9: '' @ py_str (dget data (asc ''bb9'')) @ [10] @
     asc ''FIP: '' @ py_str (dget data (asc ''fip'')) @ [10] @
     asc ''WAR: '' @ py_str (dget data (asc ''war''))"
  by (simp add: pitcher_stat_lines_def stat_line_def asc_def)

lemma batter_block:
  "join_lines (batter_stat_lines data) =
     asc ''Games: '' @ py_str (dget data (asc ''games'')) @ [10] @
     asc ''At-Bats: '' @ py_str (dget data (asc ''at_bats'')) @ [10] @
     asc ''Hits: '' @ py_str (dget data (asc ''hits'')) @ [10] @
     asc ''Batting Average (AVG): '' @ py_str (dget data (asc ''avg'')) @ [10] @
     asc ''On-Base Percentage (OBP): '' @ py_str (dget data (asc ''obp'')) @ [10] @
     asc ''Slugging Percentage (SLG): '' @ py_str (dget data (asc ''slg'')) @ [10] @
     asc ''OPS: '' @ py_str (dget data (asc ''ops'')) @ [10] @
     asc ''Home Runs (HR): '' @ py_str (dget data (asc ''home_runs'')) @ [10] @
     asc ''RBI: '' @ py_str (dget data (asc ''rbi'')) @ [10] @
     asc ''Stolen Bases (SB): '' @ py_str (dget data (asc ''stolen_bases'')) @ [10] @
     asc ''Walks (BB): '' @ py_str (dget data (asc ''walks'')) @ [10] @
     asc ''Strikeouts (SO): '' @ py_str (dget data (asc ''strikeouts'')) @ [10] @
     asc ''Doubles (2B): '' @ py_str (dget data (asc ''doubles'')) @ [10] @
     asc ''Triples (3B): '' @ py_str (dget data (asc ''triples'')) @ [10] @
     asc ''WAR: '' @ py_str (dget data (asc ''war'')) @ [10] @
     asc ''wRC+: '' @ py_str (dget data (asc ''wrc_plus''))"
  by (simp add: batter_stat_lines_def stat_line_def asc_def)

lemma role_parts_batter:
  "role_parts (PStr (asc ''Batter'')) data =
     (batter_stat_lines data, asc ''position player (batter)'', batter_benchmarks)"
  by (simp add: role_parts_def)

lemma build_prompt_batter:
  "build_prompt name year (PStr (asc ''Batter'')) data =
     prompt_text (py_str year) (py_str name) (asc ''position player (batter)'') batter_benchmarks
       (join_lines (batter_stat_lines data))"
  by (simp add: build_prompt_def role_parts_batter)

lemma batter_stats_head:
  assumes "batter_stats B player_name year row = Inr payload"
  shows "\<exists>d. payload = (asc ''name'', PStr player_name) # (asc ''year'', PInt year) #
                        (asc ''type'', PStr (asc ''Batter'')) # d"
  using assms unfolding batter_stats_def
  by (simp only: collect_Inr_Cons) (elim exE conjE, simp)

lemma get_player_stats_batter_valid:
  assumes "get_player_stats B batting_stats pitching_stats name year ptype = Ok payload"
    and "ptype = None \<or> ptype = Some (asc ''Batter'')"
  shows "\<exists>n y row. n \<noteq> [] \<and> y \<noteq> 0 \<and> batter_stats B n y row = Inr payload"
proof -
  from assms(2) have b: "(case ptype of None \<Rightarrow> asc ''Batter'' | Some t \<Rightarrow> t) = asc ''Batter''"
    by auto
  from assms(1) obtain n y
    where "n \<noteq> []" "y \<noteq> 0"
      "lookup_player batting_stats (batter_stats B n y) n y = Inr (Some payload)"
    by (auto simp: get_player_stats_def b split: option.splits if_splits sum.splits)
  then show ?thesis
    by (auto simp: lookup_player_def and_then_def split: sum.splits list.splits)
qed

lemma batter_payload_fields:
  assumes "get_player_stats B batting_stats pitching_stats name year ptype = Ok payload"
    and "ptype = None \<or> ptype = Some (asc ''Batter'')"
  shows "payload \<noteq> [] \<and> truthy (dget payload (asc ''name'')) \<and>
         truthy (dget payload (asc ''year'')) \<and>
         dget payload (asc ''type'') = PStr (asc ''Batter'')"
proof -
  from get_player_stats_batter_valid [OF assms] obtain n y row
    where v: "n \<noteq> []" "y \<noteq> 0" and s: "batter_stats B n y row = Inr payload"
    by (elim exE conjE)
  from batter_stats_head [OF s] obtain d where
    "payload = (asc ''name'', PStr n) # (asc ''year'', PInt y) #
               (asc ''type'', PStr (asc ''Batter'')) # d" ..
  with v show ?thesis by (simp add: dget_def dget_default_def)
qed

text \<open>
  C8: for the type \<open>Pitcher\<close> the branch selects the stat lines, the role context and
  the benchmark table of the pitchers; the prompt is the template filled with them, so it
  contains the pitcher table, which begins \<open>Use these grade benchmarks for a pitcher\<close>.
  The stats block of the prompt is the fourteen pitcher lines, each \<open>Label: value\<close>, joined
  by newlines, and every one of these lines occurs in the prompt. The table and the stat
  lines differ from those of the batters. For a request with data, a name, a year and the
  type \<open>Pitcher\<close>, this prompt is the one sent to the model.
\<close>

theorem pitcher_type_selects_pitcher_rubric:
  "role_parts (PStr (asc ''Pitcher'')) data =
     (pitcher_stat_lines data, asc ''pitcher'', pitcher_benchmarks) \<and>
   build_prompt name year (PStr (asc ''Pitcher'')) data =
     prompt_text (py_str year) (py_str name) (asc ''pitcher'') pitcher_benchmarks
       (join_lines (pitcher_stat_lines data)) \<and>
   py_in pitcher_benchmarks (build_prompt name year (PStr (asc ''Pitcher'')) data) \<and>
   py_in (join_lines (pitcher_stat_lines data))
     (build_prompt name year (PStr (asc ''Pitcher'')) data) \<and>
   prefix (asc ''Use these grade benchmarks for a pitcher'') pitcher_benchmarks \<and>
   pitcher_benchmarks \<noteq> batter_benchmarks \<and>
   pitcher_stat_lines data \<noteq> batter_stat_lines data \<and>
   join_lines (pitcher_stat_lines data) =
     asc ''Games: '' @ py_str (dget data (asc ''games'')) @ [10] @
     asc ''Games Started (GS): '' @ py_str (dget data (asc ''games_started'')) @ [10] @
     asc ''Wins: '' @ py_str (dget data (asc ''wins'')) @ [10] @
     asc ''Losses: '' @ py_str (dget data (asc ''losses'')) @ [10] @
     asc ''Saves: '' @ py_str (dget data (asc ''saves'')) @ [10] @
     asc ''Innings Pitched (IP): '' @ py_str (dget data (asc ''innings_pitched'')) @ [10] @
     asc ''ERA: '' @ py_str (dget data (asc ''era'')) @ [10] @
     asc ''WHIP: '' @ py_str (dget data (asc ''whip'')) @ [10] @
     asc ''Strikeouts (K): '' @ py_str (dget data (asc ''strikeouts'')) @ [10] @
     asc ''Walks (BB): '' @ py_str (dget data (asc ''walks'')) @ [10] @
     asc ''K/9: '' @ py_str (dget data (asc ''k9'')) @ [10] @
     asc ''BB/9: '' @ py_str (dget data (asc ''bb9'')) @ [10] @
     asc ''FIP: '' @ py_str (dget data (asc ''fip'')) @ [10] @
     asc ''WAR: '' @ py_str (dget data (asc ''war'')) \<and>
   (\<forall>l \<in> set (pitcher_stat_lines data).
      py_in l (build_prompt name year (PStr (asc ''Pitcher'')) data)) \<and>
   (data \<noteq> [] \<and> truthy (dget data (asc ''name'')) \<and> truthy (dget data (asc ''year'')) \<and>
    dget data (asc ''type'') = PStr (asc ''Pitcher'') \<longrightarrow>
      analyze_player gemini (JObject data) =
        (case and_then
                (gemini (prompt_text (py_str (dget data (asc ''year'')))
                           (py_str (dget data (asc ''name''))) (asc ''pitcher'')
                           pitcher_benchmarks (join_lines (pitcher_stat_lines data))))
                parse_response of
           Inl e \<Rightarrow> Error 500 e
         | Inr r \<Rightarrow> Ok r))"
proof -
  have p: "PStr (asc ''Pitcher'') \<noteq> PStr (asc ''Batter'')" by simp
  note bp = build_prompt_pitcher [OF p]
  have h: "analyze_player gemini (JObject data) =
        (case and_then
                (gemini (prompt_text (py_str (dget data (asc ''year'')))
                           (py_str (dget data (asc ''name''))) (asc ''pitcher'')
                           pitcher_benchmarks (join_lines (pitcher_stat_lines data))))
                parse_response of
           Inl e \<Rightarrow> Error 500 e
         | Inr r \<Rightarrow> Ok r)"
    if "data \<noteq> []" "truthy (dget data (asc ''name''))" "truthy (dget data (asc ''year''))"
       "dget data (asc ''type'') = PStr (asc ''Pitcher'')"
  proof -
    from that(4) have "truthy (dget data (asc ''type''))" by simp
    from analyze_player_valid [OF that(1,2,3) this] show ?thesis
      by (simp only: that(4) bp)
  qed
  have lines: "\<forall>l \<in> set (pitcher_stat_lines data).
      py_in l (build_prompt name year (PStr (asc ''Pitcher'')) data)"
    by (simp only: bp) (intro ballI, erule line_in_prompt)
  show ?thesis
    apply (intro conjI)
             apply (rule role_parts_pitcher [OF p])
            apply (rule bp)
           apply (simp only: bp prompt_has_benchmarks)
          apply (simp only: bp prompt_has_stats)
         apply (rule pitcher_benchmarks_prefix)
        apply (rule benchmarks_differ)
       apply (rule stat_lines_differ)
      apply (rule pitcher_block)
     apply (rule lines)
    apply (rule impI)
    apply (elim conjE)
    apply (erule (3) h)
    done
qed

text \<open>
  A payload with type \<open>Pitcher\<close>, an ERA of 2.1 and a WAR of 6.5, sent to a model that
  answers only a prompt with the pitcher table; the line \<open>ERA: 2.1\<close> is in the prompt.
\<close>

theorem pitcher_type_selects_pitcher_rubric_witness:
  "dget [(asc ''name'', PStr (asc ''Gerrit Cole'')), (asc ''year'', PInt 2023),
         (asc ''type'', PStr (asc ''Pitcher'')), (asc ''era'', POther True (asc ''2.1'')),
         (asc ''war'', POther True (asc ''6.5''))] (asc ''type'') = PStr (asc ''Pitcher'') \<and>
   asc ''ERA: 2.1'' \<in> set (pitcher_stat_lines
        [(asc ''name'', PStr (asc ''Gerrit Cole'')), (asc ''year'', PInt 2023),
         (asc ''type'', PStr (asc ''Pitcher'')), (asc ''era'', POther True (asc ''2.1'')),
         (asc ''war'', POther True (asc ''6.5''))]) \<and>
   py_in (asc ''ERA: 2.1'')
     (build_prompt (PStr (asc ''Gerrit Cole'')) (PInt 2023) (PStr (asc ''Pitcher''))
        [(asc ''name'', PStr (asc ''Gerrit Cole'')), (asc ''year'', PInt 2023),
         (asc ''type'', PStr (asc ''Pitcher'')), (asc ''era'', POther True (asc ''2.1'')),
         (asc ''war'', POther True (asc ''6.5''))]) \<and>
   analyze_player pitcher_only_model
     (JObject [(asc ''name'', PStr (asc ''Gerrit Cole'')), (asc ''year'', PInt 2023),
         (asc ''type'', PStr (asc ''Pitcher'')), (asc ''era'', POther True (asc ''2.1'')),
         (asc ''war'', POther True (asc ''6.5''))]) =
     Ok \<lparr>summary = asc ''ok'', grade = asc ''A'', grade_text = asc ''A''\<rparr>"
proof -
  let ?D = "[(asc ''name'', PStr (asc ''Gerrit Cole'')), (asc ''year'', PInt 2023),
         (asc ''type'', PStr (asc ''Pitcher'')), (asc ''era'', POther True (asc ''2.1'')),
         (asc ''war'', POther True (asc ''6.5''))]"
  let ?P = "prompt_text (py_str (dget ?D (asc ''year''))) (py_str (dget ?D (asc ''name'')))
              (asc ''pitcher'') pitcher_benchmarks (join_lines (pitcher_stat_lines ?D))"
  have h1: "?D \<noteq> []" by simp
  have h2: "truthy (dget ?D (asc ''name''))" by (simp add: handler_defs)
  have h3: "truthy (dget ?D (asc ''year''))" by (simp add: handler_defs)
  have h4: "dget ?D (asc ''type'') = PStr (asc ''Pitcher'')" by (simp add: handler_defs)
  have line: "asc ''ERA: 2.1'' \<in> set (pitcher_stat_lines ?D)"
    by (simp add: eval_defs asc_def)
  note t = pitcher_type_selects_pitcher_rubric
      [of ?D "PStr (asc ''Gerrit Cole'')" "PInt 2023" pitcher_only_model]
  from t have all: "\<forall>l \<in> set (pitcher_stat_lines ?D).
      py_in l (build_prompt (PStr (asc ''Gerrit Cole'')) (PInt 2023) (PStr (asc ''Pitcher'')) ?D)"
    by (elim conjE)
  from bspec [OF all line]
  have inp: "py_in (asc ''ERA: 2.1'')
     (build_prompt (PStr (asc ''Gerrit Cole'')) (PInt 2023) (PStr (asc ''Pitcher'')) ?D)" .
  from t have imp: "?D \<noteq> [] \<and> truthy (dget ?D (asc ''name'')) \<and> truthy (dget ?D (asc ''year'')) \<and>
      dget ?D (asc ''type'') = PStr (asc ''Pitcher'') \<longrightarrow>
      analyze_player pitcher_only_model (JObject ?D) =
        (case and_then (pitcher_only_model ?P) parse_response of
           Inl e \<Rightarrow> Error 500 e | Inr r \<Rightarrow> Ok r)"
    by (elim conjE)
  have a: "analyze_player pitcher_only_model (JObject ?D) =
        (case and_then (pitcher_only_model ?P) parse_response of
           Inl e \<Rightarrow> Error 500 e | Inr r \<Rightarrow> Ok r)"
    by (rule mp [OF imp conjI [OF h1 conjI [OF h2 conjI [OF h3 h4]]]])
  have m: "pitcher_only_model ?P = Inr (asc ''SUMMARY: ok GRADE: A'')"
    by (simp only: pitcher_only_model_def prompt_has_benchmarks if_True)
  have r: "parse_response (asc ''SUMMARY: ok GRADE: A'') =
             Inr \<lparr>summary = asc ''ok'', grade = asc ''A'', grade_text = asc ''A''\<rparr>"
    by (simp add: parser_defs)
  have c: "analyze_player pitcher_only_model (JObject ?D) =
          Ok \<lparr>summary = asc ''ok'', grade = asc ''A'', grade_text = asc ''A''\<rparr>"
    by (simp only: a m r and_then_def sum.case)
  show ?thesis
    by (rule conjI [OF h4 conjI [OF line conjI [OF inp c]]])
qed

lemma fields_in_prompt:
  assumes "\<forall>(key, label) \<in> set fs.
             \<exists>v. map_of d (asc key) = Some v \<and> asc label @ asc '': '' @ py_str v \<in> set ls"
  shows "\<forall>(key, label) \<in> set fs.
           \<exists>v. map_of d (asc key) = Some v \<and>
               py_in (asc label @ asc '': '' @ py_str v) (prompt_text y n rc gb (join_lines ls))"
proof clarify
  fix key label
  assume m: "(key, label) \<in> set fs"
  from assms m have "\<exists>v. map_of d (asc key) = Some v \<and>
      asc label @ asc '': '' @ py_str v \<in> set ls" by auto
  then obtain v where v: "map_of d (asc key) = Some v"
    and l: "asc label @ asc '': '' @ py_str v \<in> set ls" by (elim exE conjE)
  from line_in_prompt [OF l]
  have "py_in (asc label @ asc '': '' @ py_str v) (prompt_text y n rc gb (join_lines ls))" .
  with v show "\<exists>v. map_of d (asc key) = Some v \<and>
      py_in (asc label @ asc '': '' @ py_str v) (prompt_text y n rc gb (join_lines ls))"
    by (intro exI conjI)
qed

text \<open>
  C7, amended: an answer of /api/player-stats for a batter has the twenty fields listed,
  in this order, and its type is \<open>Batter\<close>. Sent to /api/analyze, it passes the presence
  checks and takes the batter branch: the stats block of the prompt is the sixteen batter
  lines, each \<open>Label: value\<close>, joined by newlines. Each of the sixteen statistics of the
  answer (every field but \<open>name\<close>, \<open>year\<close>, \<open>type\<close> and \<open>team\<close>) is one of these
  lines, under its display label, and occurs so in the prompt sent to the model; there are
  no other stat lines.
\<close>

theorem stat_fields_round_trip:
  assumes "get_player_stats B batting_stats pitching_stats name year ptype = Ok payload"
    and "ptype = None \<or> ptype = Some (asc ''Batter'')"
  shows "map fst payload = map asc
           [''name'', ''year'', ''type'', ''team'', ''games'', ''at_bats'', ''hits'', ''doubles'',
            ''triples'', ''home_runs'', ''rbi'', ''stolen_bases'', ''walks'', ''strikeouts'',
            ''avg'', ''obp'', ''slg'', ''ops'', ''war'', ''wrc_plus''] \<and>
         (\<forall>(key, label) \<in> set
              [(''games'', ''Games''), (''at_bats'', ''At-Bats''), (''hits'', ''Hits''),
               (''doubles'', ''Doubles (2B)''), (''triples'', ''Triples (3B)''),
               (''home_runs'', ''Home Runs (HR)''), (''rbi'', ''RBI''),
               (''stolen_bases'', ''Stolen Bases (SB)''), (''walks'', ''Walks (BB)''),
               (''strikeouts'', ''Strikeouts (SO)''), (''avg'', ''Batting Average (AVG)''),
               (''obp'', ''On-Base Percentage (OBP)''), (''slg'', ''Slugging Percentage (SLG)''),
               (''ops'', ''OPS''), (''war'', ''WAR''), (''wrc_plus'', ''wRC+'')].
            \<exists>v. map_of payload (asc key) = Some v \<and>
                asc label @ asc '': '' @ py_str v \<in> set (batter_stat_lines payload)) \<and>
         length (batter_stat_lines payload) = 16 \<and>
         dget payload (asc ''type'') = PStr (asc ''Batter'') \<and>
         role_parts (dget payload (asc ''type'')) payload =
           (batter_stat_lines payload, asc ''position player (batter)'', batter_benchmarks) \<and>
         build_prompt (dget payload (asc ''name'')) (dget payload (asc ''year''))
             (dget payload (asc ''type'')) payload =
           prompt_text (py_str (dget payload (asc ''year''))) (py_str (dget payload (asc ''name'')))
             (asc ''position player (batter)'') batter_benchmarks
             (join_lines (batter_stat_lines payload)) \<and>
         join_lines (batter_stat_lines payload) =
           asc ''Games: '' @ py_str (dget payload (asc ''games'')) @ [10] @
           asc ''At-Bats: '' @ py_str (dget payload (asc ''at_bats'')) @ [10] @
           asc ''Hits: '' @ py_str (dget payload (asc ''hits'')) @ [10] @
           asc ''Batting Average (AVG): '' @ py_str (dget payload (asc ''avg'')) @ [10] @
           asc ''On-Base Percentage (OBP): '' @ py_str (dget payload (asc ''obp'')) @ [10] @
           asc ''Slugging Percentage (SLG): '' @ py_str (dget payload (asc ''slg'')) @ [10] @
           asc ''OPS: '' @ py_str (dget payload (asc ''ops'')) @ [10] @
           asc ''Home Runs (HR): '' @ py_str (dget payload (asc ''home_runs'')) @ [10] @
           asc ''RBI: '' @ py_str (dget payload (asc ''rbi'')) @ [10] @
           asc ''Stolen Bases (SB): '' @ py_str (dget payload (asc ''stolen_bases'')) @ [10] @
           asc ''Walks (BB): '' @ py_str (dget payload (asc ''walks'')) @ [10] @
           asc ''Strikeouts (SO): '' @ py_str (dget payload (asc ''strikeouts'')) @ [10] @
           asc ''Doubles (2B): '' @ py_str (dget payload (asc ''doubles'')) @ [10] @
           asc ''Triples (3B): '' @ py_str (dget payload (asc ''triples'')) @ [10] @
           asc ''WAR: '' @ py_str (dget payload (asc ''war'')) @ [10] @
           asc ''wRC+: '' @ py_str (dget payload (asc ''wrc_plus'')) \<and>
         (\<forall>(key, label) \<in> set
              [(''games'', ''Games''), (''at_bats'', ''At-Bats''), (''hits'', ''Hits''),
               (''doubles'', ''Doubles (2B)''), (''triples'', ''Triples (3B)''),
               (''home_runs'', ''Home Runs (HR)''), (''rbi'', ''RBI''),
               (''stolen_bases'', ''Stolen Bases (SB)''), (''walks'', ''Walks (BB)''),
               (''strikeouts'', ''Strikeouts (SO)''), (''avg'', ''Batting Average (AVG)''),
               (''obp'', ''On-Base Percentage (OBP)''), (''slg'', ''Slugging Percentage (SLG)''),
               (''ops'', ''OPS''), (''war'', ''WAR''), (''wrc_plus'', ''wRC+'')].
            \<exists>v. map_of payload (asc key) = Some v \<and>
                py_in (asc label @ asc '': '' @ py_str v)
                  (build_prompt (dget payload (asc ''name'')) (dget payload (asc ''year''))
                     (dget payload (asc ''type'')) payload)) \<and>
         analyze_player gemini (JObject payload) =
           (case and_then
                   (gemini (build_prompt (dget payload (asc ''name''))
                              (dget payload (asc ''year'')) (dget payload (asc ''type'')) payload))
                   parse_response of
              Inl e \<Rightarrow> Error 500 e
            | Inr r \<Rightarrow> Ok r)"
proof -
  let ?fields = "[(''games'', ''Games''), (''at_bats'', ''At-Bats''), (''hits'', ''Hits''),
               (''doubles'', ''Doubles (2B)''), (''triples'', ''Triples (3B)''),
               (''home_runs'', ''Home Runs (HR)''), (''rbi'', ''RBI''),
               (''stolen_bases'', ''Stolen Bases (SB)''), (''walks'', ''Walks (BB)''),
               (''strikeouts'', ''Strikeouts (SO)''), (''avg'', ''Batting Average (AVG)''),
               (''obp'', ''On-Base Percentage (OBP)''), (''slg'', ''Slugging Percentage (SLG)''),
               (''ops'', ''OPS''), (''war'', ''WAR''), (''wrc_plus'', ''wRC+'')]"
  from get_player_stats_batter [OF assms] obtain n y row
    where "batter_stats B n y row = Inr payload" by (elim exE)
  then have keys: "map fst payload = map asc
           [''name'', ''year'', ''type'', ''team'', ''games'', ''at_bats'', ''hits'', ''doubles'',
            ''triples'', ''home_runs'', ''rbi'', ''stolen_bases'', ''walks'', ''strikeouts'',
            ''avg'', ''obp'', ''slg'', ''ops'', ''war'', ''wrc_plus'']"
    by (rule batter_stats_keys)
  have lines: "\<forall>(key, label) \<in> set ?fields.
                 stat_line label payload key \<in> set (batter_stat_lines payload)"
    by (simp add: batter_stat_lines_def)
  have present: "\<forall>(key, label) \<in> set ?fields. asc key \<in> set (map fst payload)"
    unfolding keys by simp
  from fields_covered [OF present lines]
  have covered: "\<forall>(key, label) \<in> set ?fields.
          \<exists>v. map_of payload (asc key) = Some v \<and>
              asc label @ asc '': '' @ py_str v \<in> set (batter_stat_lines payload)" .
  have len: "length (batter_stat_lines payload) = 16"
    by (simp add: batter_stat_lines_def)
  from batter_payload_fields [OF assms]
  have ne: "payload \<noteq> []" and tn: "truthy (dget payload (asc ''name''))"
    and ty: "truthy (dget payload (asc ''year''))"
    and ty_eq: "dget payload (asc ''type'') = PStr (asc ''Batter'')"
    by simp_all
  from ty_eq have tt: "truthy (dget payload (asc ''type''))" by simp
  have rp: "role_parts (dget payload (asc ''type'')) payload =
           (batter_stat_lines payload, asc ''position player (batter)'', batter_benchmarks)"
    by (simp only: ty_eq role_parts_batter)
  have bp: "build_prompt (dget payload (asc ''name'')) (dget payload (asc ''year''))
             (dget payload (asc ''type'')) payload =
           prompt_text (py_str (dget payload (asc ''year''))) (py_str (dget payload (asc ''name'')))
             (asc ''position player (batter)'') batter_benchmarks
             (join_lines (batter_stat_lines payload))"
    by (simp only: ty_eq build_prompt_batter)
  have inp: "\<forall>(key, label) \<in> set ?fields.
            \<exists>v. map_of payload (asc key) = Some v \<and>
                py_in (asc label @ asc '': '' @ py_str v)
                  (build_prompt (dget payload (asc ''name'')) (dget payload (asc ''year''))
                     (dget payload (asc ''type'')) payload)"
    unfolding bp by (rule fields_in_prompt [OF covered])
  note an = analyze_player_valid [OF ne tn ty tt, of gemini]
  show ?thesis
    by (rule conjI [OF keys conjI [OF covered conjI [OF len conjI [OF ty_eq conjI [OF rp
          conjI [OF bp conjI [OF batter_block conjI [OF inp an]]]]]]]])
qed

text \<open>The sample answer, its line for \<open>home_runs\<close>, and that line in the prompt.\<close>

theorem stat_fields_round_trip_witness:
  "get_player_stats sample_builtins (\<lambda>y. Inr sample_batting) (\<lambda>y. Inr sample_pitching)
     (Some (asc ''Aaron Judge'')) (Some 2023) (Some (asc ''Batter'')) = Ok sample_payload \<and>
   map_of sample_payload (asc ''home_runs'') = Some (PInt 37) \<and>
   asc ''Home Runs (HR): 37'' \<in> set (batter_stat_lines sample_payload) \<and>
   length (batter_stat_lines sample_payload) = 16 \<and>
   py_in (asc ''Home Runs (HR): 37'')
     (build_prompt (PStr (asc ''Aaron Judge'')) (PInt 2023) (PStr (asc ''Batter'')) sample_payload)"
proof -
  have t: "Some (asc ''Batter'') = None \<or> Some (asc ''Batter'') = Some (asc ''Batter'')"
    by simp
  note T = stat_fields_round_trip [OF sample_payload_answer t, where gemini = pitcher_only_model]
  from T have len: "length (batter_stat_lines sample_payload) = 16"
    by (elim conjE)
  have hr: "map_of sample_payload (asc ''home_runs'') = Some (PInt 37)"
    by (simp add: sample_payload_def)
  have line: "asc ''Home Runs (HR): 37'' \<in> set (batter_stat_lines sample_payload)"
    unfolding sample_stat_lines by simp
  have d: "dget sample_payload (asc ''name'') = PStr (asc ''Aaron Judge'')"
     "dget sample_payload (asc ''year'') = PInt 2023"
     "dget sample_payload (asc ''type'') = PStr (asc ''Batter'')"
    by (simp_all add: sample_payload_def dget_def dget_default_def)
  from T
  have bp: "build_prompt (dget sample_payload (asc ''name'')) (dget sample_payload (asc ''year''))
             (dget sample_payload (asc ''type'')) sample_payload =
           prompt_text (py_str (dget sample_payload (asc ''year'')))
             (py_str (dget sample_payload (asc ''name'')))
             (asc ''position player (batter)'') batter_benchmarks
             (join_lines (batter_stat_lines sample_payload))"
    by (elim conjE)
  have "py_in (asc ''Home Runs (HR): 37'')
     (build_prompt (dget sample_payload (asc ''name'')) (dget sample_payload (asc ''year''))
             (dget sample_payload (asc ''type'')) sample_payload)"
    unfolding bp by (rule line_in_prompt [OF line])
  then have inp: "py_in (asc ''Home Runs (HR): 37'')
     (build_prompt (PStr (asc ''Aaron Judge'')) (PInt 2023) (PStr (asc ''Batter'')) sample_payload)"
    by (simp only: d)
  show ?thesis
    by (rule conjI [OF sample_payload_answer conjI [OF hr conjI [OF line conjI [OF len inp]]]])
qed

end
